theory Spec2Isabelle
  imports Complex_Main
begin

section \<open>Scheduler.cpp: the data the scheduler works on\<close>

text \<open>
  A shallow embedding of \<^verbatim>\<open>services/surfaceflinger/Scheduler/Scheduler.cpp\<close>.
  Every member function becomes a function from the scheduler's members (the record
  \<open>Scheduler\<close>) to the updated members. Calls that leave the class (the host's
  \<^verbatim>\<open>ISchedulerCallback\<close>, the vsync tracker and controller, an \<^verbatim>\<open>EventThread\<close>) are
  appended to the member \<open>calls\<close>, oldest first, so that "nothing was called" is
  an equation between states.

  Numbers: \<^verbatim>\<open>nsecs_t\<close> is a signed 64 bit count of nanoseconds, modelled as \<open>int\<close>
  (the clock values of the file are far from the ends of that range);
  \<^verbatim>\<open>float\<close> and \<^verbatim>\<open>Fps\<close> are modelled by the real number a finite float denotes. The file
  compares floats only against the constants 0 and 1 and truncates them to
  \<^verbatim>\<open>int32_t\<close>; it never rounds. NaN and the infinities are outside the model.
\<close>

type_synonym nsecs_t = int
type_synonym uid_t = nat
type_synonym Fps = real
type_synonym DisplayModeId = nat
type_synonym PhysicalDisplayId = nat

text \<open>\<^verbatim>\<open>LayerHistory::Summary\<close> is a vector of layer requirements that this file only
  stores, clears and hands to the policy.\<close>

typedecl LayerRequirement
type_synonym Summary = "LayerRequirement list"

datatype TimerState = Reset | Expired
datatype TouchState = Inactive | Active
datatype ModeEvent = ModeEventNone | ModeEventChanged

datatype ConnectionHandle = ConnectionHandle (handleId: nat)

record RefreshRate =
  getModeId :: DisplayModeId
  getFps :: Fps
  getVsyncPeriod :: nsecs_t

record GlobalSignals =
  touch :: bool
  idle :: bool

text \<open>\<^verbatim>\<open>Features::cachedModeChangedParams\<close>: the fields \<^verbatim>\<open>handle\<close>, \<^verbatim>\<open>displayId\<close>,
  \<^verbatim>\<open>modeId\<close>, \<^verbatim>\<open>vsyncPeriod\<close>, prefixed here since \<open>modeId\<close> is also a field of
  \<open>Features\<close>.\<close>

record ModeChangedParams =
  mcpHandle :: ConnectionHandle
  mcpDisplayId :: PhysicalDisplayId
  mcpModeId :: DisplayModeId
  mcpVsyncPeriod :: nsecs_t

text \<open>\<^verbatim>\<open>mFeatures\<close>. The member \<^verbatim>\<open>touch\<close> is called \<open>touchState\<close>, since \<open>touch\<close>
  is a field of \<open>GlobalSignals\<close>.\<close>

record Features =
  modeId :: "DisplayModeId option"
  contentRequirements :: Summary
  idleTimer :: TimerState
  touchState :: TouchState
  displayPowerTimer :: TimerState
  isDisplayPowerStateNormal :: bool
  cachedModeChangedParams :: "ModeChangedParams option"

text \<open>The one closure the file hands to an \<^verbatim>\<open>EventThread\<close> as its throttle callback
  (\<^verbatim>\<open>makeThrottleVsyncCallback\<close>), or the empty \<^verbatim>\<open>std::function\<close>.\<close>

datatype ThrottleVsyncCallback = EmptyThrottleVsyncCallback | ThrottleUnlessVsyncValid

datatype GetVsyncPeriodFunction = EmptyGetVsyncPeriodFunction | OverrideAwareVsyncPeriod

datatype VSyncSource =
    DispSyncSource string nsecs_t nsecs_t
  | InjectVSyncSource

text \<open>An \<^verbatim>\<open>EventThread\<close> as this file builds it: its constructor arguments, and whether
  \<^verbatim>\<open>onHotplugReceived(_, true)\<close> and \<^verbatim>\<open>onScreenAcquired()\<close> were called on it.\<close>

record EventThread =
  vsyncSource :: VSyncSource
  throttleVsync :: ThrottleVsyncCallback
  getVsyncPeriodFunction :: GetVsyncPeriodFunction
  hotplugConnected :: bool
  screenAcquired :: bool

text \<open>The callback an \<^verbatim>\<open>EventThreadConnection\<close> runs on a vsync request
  (\<^verbatim>\<open>createConnectionInternal\<close>).\<close>

datatype ResyncCallback = CallResyncAndRefresh | CallResync

record Connection =
  connection :: ResyncCallback
  thread :: EventThread

text \<open>Calls that leave the scheduler.\<close>

datatype Call =
    SetVsyncEnabled bool
  | ChangeRefreshRate RefreshRate ModeEvent
  | RepaintEverythingForHWC
  | KernelTimerChanged bool
  | TriggerOnFrameRateOverridesChanged
  | ResetModel
  | StartPeriodTransition nsecs_t
  | OnModeChanged ConnectionHandle PhysicalDisplayId DisplayModeId nsecs_t
  | OnInjectSyncEvent nsecs_t nsecs_t nsecs_t
  | AddHwVsyncTimestamp nsecs_t "nsecs_t option"
  | AddPresentFence
  | LayerHistoryClear
  | LayerHistoryUpdateThermalFps real

text \<open>The members of \<^verbatim>\<open>Scheduler\<close> that the functions below read or write. The three
  \<^verbatim>\<open>std::optional<OneShotTimer>\<close> members and the pointer \<^verbatim>\<open>mVSyncInjector\<close> are
  represented by whether they hold a value. \<^verbatim>\<open>mFrameRateOverridesByContent\<close> is kept
  as the sequence of entries an iteration over the \<^verbatim>\<open>std::map\<close> visits, since
  \<^verbatim>\<open>updateFrameRateOverrides\<close> compares two such sequences.\<close>

record Scheduler =
  mFeatures :: Features
  mIdleTimer :: bool
  mTouchTimer :: bool
  mDisplayPowerTimer :: bool
  mHandleIdleTimeout :: bool
  mThermalFps :: real
  mFrameRateOverridesFromBackdoor :: "uid_t \<rightharpoonup> Fps"
  mFrameRateOverridesByContent :: "(uid_t \<times> Fps) list"
  mPrimaryHWVsyncEnabled :: bool
  mHWVsyncAvailable :: bool
  mLastResyncTime :: nsecs_t
  mDisplayIdle :: bool
  mInjectVSyncs :: bool
  mVSyncInjector :: bool
  mInjectorConnectionHandle :: ConnectionHandle
  mNextConnectionHandleId :: nat
  mConnections :: "ConnectionHandle \<rightharpoonup> Connection"
  calls :: "Call list"

text \<open>\<^verbatim>\<open>mRefreshRateConfigs\<close>, the policy, is a collaborator whose code is elsewhere: each
  member function the file calls is a field. \<^verbatim>\<open>getBestRefreshRate\<close> returns its
  result together with the signals it writes through \<^verbatim>\<open>consideredSignals\<close>.\<close>

record RefreshRateConfigs =
  supportsFrameRateOverride :: bool
  canSwitch :: bool
  getCurrentRefreshRate :: RefreshRate
  getRefreshRateFromModeId :: "DisplayModeId \<Rightarrow> RefreshRate"
  getMaxRefreshRateByPolicy :: RefreshRate
  getBestRefreshRate :: "Summary \<Rightarrow> GlobalSignals \<Rightarrow> RefreshRate \<times> GlobalSignals"
  getFrameRateOverrides :: "Summary \<Rightarrow> Fps \<Rightarrow> bool \<Rightarrow> (uid_t \<times> Fps) list"
  getFrameRateDivider :: "Fps \<Rightarrow> Fps \<Rightarrow> int"

text \<open>Declarations the file uses from headers that are not part of the sources at hand
  (\<^verbatim>\<open>Scheduler.h\<close>, \<^verbatim>\<open>Fps.h\<close>), taken as parameters: the id of a default-constructed
  \<^verbatim>\<open>ConnectionHandle\<close> (the one whose \<^verbatim>\<open>operator bool\<close> is false), the default
  argument of \<^verbatim>\<open>resyncToHardwareVsync\<close>'s third parameter, and the margin comparisons of
  \<^verbatim>\<open>Fps\<close>.\<close>

record Headers =
  INVALID_ID :: nat
  force_resync_default :: bool
  equalsWithMargin :: "Fps \<Rightarrow> Fps \<Rightarrow> bool"
  greaterThanWithMargin :: "Fps \<Rightarrow> Fps \<Rightarrow> bool"
  lessThanOrEqualWithMargin :: "Fps \<Rightarrow> Fps \<Rightarrow> bool"

section \<open>Frame rate overrides\<close>

text \<open>\<^verbatim>\<open>Scheduler::getFrameRateOverride\<close> (lines 207-228).\<close>

definition getFrameRateOverride :: "RefreshRateConfigs \<Rightarrow> Scheduler \<Rightarrow> uid_t \<Rightarrow> Fps option" where
  "getFrameRateOverride cfg s uid =
     (if \<not> supportsFrameRateOverride cfg then None
      else case mFrameRateOverridesFromBackdoor s uid of
             Some fps \<Rightarrow> Some fps
           | None \<Rightarrow>
               (case map_of (mFrameRateOverridesByContent s) uid of
                  Some fps \<Rightarrow> Some fps
                | None \<Rightarrow> None))"

text \<open>\<^verbatim>\<open>Scheduler::isVsyncValid\<close> (lines 230-237); \<open>isVSyncInPhase\<close> is the tracker's
  \<^verbatim>\<open>isVSyncInPhase\<close>.\<close>

definition isVsyncValid ::
  "RefreshRateConfigs \<Rightarrow> (nsecs_t \<Rightarrow> Fps \<Rightarrow> bool) \<Rightarrow> Scheduler \<Rightarrow> nsecs_t \<Rightarrow> uid_t \<Rightarrow> bool" where
  "isVsyncValid cfg isVSyncInPhase s expectedVsyncTimestamp uid =
     (case getFrameRateOverride cfg s uid of
        None \<Rightarrow> True
      | Some frameRate \<Rightarrow> isVSyncInPhase expectedVsyncTimestamp frameRate)"

text \<open>\<^verbatim>\<open>Scheduler::makeThrottleVsyncCallback\<close> (lines 239-247), and what the closure it
  returns computes when an \<^verbatim>\<open>EventThread\<close> calls it.\<close>

definition makeThrottleVsyncCallback :: "RefreshRateConfigs \<Rightarrow> ThrottleVsyncCallback" where
  "makeThrottleVsyncCallback cfg =
     (if \<not> supportsFrameRateOverride cfg then EmptyThrottleVsyncCallback
      else ThrottleUnlessVsyncValid)"

definition throttleUnlessVsyncValid ::
  "RefreshRateConfigs \<Rightarrow> (nsecs_t \<Rightarrow> Fps \<Rightarrow> bool) \<Rightarrow> Scheduler \<Rightarrow> nsecs_t \<Rightarrow> uid_t \<Rightarrow> bool" where
  "throttleUnlessVsyncValid cfg isVSyncInPhase s expectedVsyncTimestamp uid =
     (\<not> isVsyncValid cfg isVSyncInPhase s expectedVsyncTimestamp uid)"

text \<open>\<^verbatim>\<open>Scheduler::makeGetVsyncPeriodFunction\<close> (lines 249-264): the function always
  returns the same closure, whose body is \<open>overrideAwareVsyncPeriod\<close>.\<close>

definition makeGetVsyncPeriodFunction :: GetVsyncPeriodFunction where
  "makeGetVsyncPeriodFunction = OverrideAwareVsyncPeriod"

definition overrideAwareVsyncPeriod :: "RefreshRateConfigs \<Rightarrow> Scheduler \<Rightarrow> uid_t \<Rightarrow> nsecs_t" where
  "overrideAwareVsyncPeriod cfg s uid =
     (let basePeriod = getVsyncPeriod (getCurrentRefreshRate cfg) in
      case getFrameRateOverride cfg s uid of
        None \<Rightarrow> basePeriod
      | Some frameRate \<Rightarrow>
          (let divider = getFrameRateDivider cfg (getFps (getCurrentRefreshRate cfg)) frameRate in
           if divider \<le> 1 then basePeriod else basePeriod * divider))"

text \<open>\<^verbatim>\<open>Scheduler::setPreferredRefreshRateForUid\<close> (lines 970-981). The argument is the
  \<^verbatim>\<open>FrameRateOverride\<close> struct's two fields, \<^verbatim>\<open>uid\<close> and \<^verbatim>\<open>frameRateHz\<close>.\<close>

definition setPreferredRefreshRateForUid :: "uid_t \<Rightarrow> real \<Rightarrow> Scheduler \<Rightarrow> Scheduler" where
  "setPreferredRefreshRateForUid uid frameRateHz s =
     (if frameRateHz > 0 \<and> frameRateHz < 1 then s
      else if frameRateHz \<noteq> 0 then
        s\<lparr>mFrameRateOverridesFromBackdoor := (mFrameRateOverridesFromBackdoor s)(uid \<mapsto> frameRateHz)\<rparr>
      else
        s\<lparr>mFrameRateOverridesFromBackdoor := (mFrameRateOverridesFromBackdoor s)(uid := None)\<rparr>)"

section \<open>Connections and vsync injection\<close>

text \<open>Appending one call to the record of calls.\<close>

definition call :: "Call \<Rightarrow> Scheduler \<Rightarrow> Scheduler" where
  "call c s = s\<lparr>calls := calls s @ [c]\<rparr>"

text \<open>\<^verbatim>\<open>Scheduler::createConnectionInternal\<close> (lines 293-302): which callback the new
  \<^verbatim>\<open>EventThreadConnection\<close> holds.\<close>

definition createConnectionInternal :: "bool \<Rightarrow> ResyncCallback" where
  "createConnectionInternal triggerRefresh =
     (if triggerRefresh then CallResyncAndRefresh else CallResync)"

text \<open>\<^verbatim>\<open>Scheduler::createConnection(std::unique_ptr<EventThread>, bool)\<close> (lines 281-291).
  \<^verbatim>\<open>emplace\<close> inserts only where the key is absent.\<close>

definition createConnectionWithThread ::
  "EventThread \<Rightarrow> bool \<Rightarrow> Scheduler \<Rightarrow> ConnectionHandle \<times> Scheduler" where
  "createConnectionWithThread eventThread triggerRefresh s =
     (let handle = ConnectionHandle (mNextConnectionHandleId s);
          s1 = s\<lparr>mNextConnectionHandleId := mNextConnectionHandleId s + 1\<rparr>;
          conn = createConnectionInternal triggerRefresh
      in (handle,
          case mConnections s1 handle of
            None \<Rightarrow> s1\<lparr>mConnections := (mConnections s1)(handle \<mapsto>
                        \<lparr>connection = conn, thread = eventThread\<rparr>)\<rparr>
          | Some _ \<Rightarrow> s1))"

text \<open>\<^verbatim>\<open>Scheduler::createConnection(const char*, ...)\<close> (lines 266-279). The token manager
  and the intercept callback are passed on to the \<^verbatim>\<open>EventThread\<close> untouched and are
  left out.\<close>

definition createConnection ::
  "RefreshRateConfigs \<Rightarrow> string \<Rightarrow> nsecs_t \<Rightarrow> nsecs_t \<Rightarrow> Scheduler \<Rightarrow> ConnectionHandle \<times> Scheduler" where
  "createConnection cfg connectionName workDuration readyDuration s =
     (let eventThread =
            \<lparr>vsyncSource = DispSyncSource connectionName workDuration readyDuration,
             throttleVsync = makeThrottleVsyncCallback cfg,
             getVsyncPeriodFunction = makeGetVsyncPeriodFunction,
             hotplugConnected = False,
             screenAcquired = False\<rparr>;
          triggerRefresh = (connectionName = ''app'')
      in createConnectionWithThread eventThread triggerRefresh s)"

text \<open>\<^verbatim>\<open>Scheduler::enableVSyncInjection\<close> (lines 465-492). \<^verbatim>\<open>return {}\<close> returns a
  default-constructed handle; \<^verbatim>\<open>!mInjectorConnectionHandle\<close> holds for the handle with
  that id.\<close>

definition enableVSyncInjection ::
  "Headers \<Rightarrow> bool \<Rightarrow> Scheduler \<Rightarrow> ConnectionHandle \<times> Scheduler" where
  "enableVSyncInjection h enable s =
     (if mInjectVSyncs s = enable then (ConnectionHandle (INVALID_ID h), s)
      else
        let s1 =
              (if handleId (mInjectorConnectionHandle s) = INVALID_ID h then
                 let eventThread =
                       \<lparr>vsyncSource = InjectVSyncSource,
                        throttleVsync = EmptyThrottleVsyncCallback,
                        getVsyncPeriodFunction = EmptyGetVsyncPeriodFunction,
                        hotplugConnected = True,
                        screenAcquired = True\<rparr>;
                     (handle, s') =
                       createConnectionWithThread eventThread False (s\<lparr>mVSyncInjector := True\<rparr>)
                 in s'\<lparr>mInjectorConnectionHandle := handle\<rparr>
               else s)
        in (mInjectorConnectionHandle s1, s1\<lparr>mInjectVSyncs := enable\<rparr>))"

text \<open>\<^verbatim>\<open>Scheduler::injectVSync\<close> (lines 494-501).\<close>

definition injectVSync :: "nsecs_t \<Rightarrow> nsecs_t \<Rightarrow> nsecs_t \<Rightarrow> Scheduler \<Rightarrow> bool \<times> Scheduler" where
  "injectVSync when expectedVSyncTime deadlineTimestamp s =
     (if \<not> mInjectVSyncs s \<or> \<not> mVSyncInjector s then (False, s)
      else (True, call (OnInjectSyncEvent when expectedVSyncTime deadlineTimestamp) s))"

section \<open>Hardware vsync\<close>

text \<open>\<^verbatim>\<open>Scheduler::enableHardwareVsync\<close> (lines 503-510).\<close>

definition enableHardwareVsync :: "Scheduler \<Rightarrow> Scheduler" where
  "enableHardwareVsync s =
     (if \<not> mPrimaryHWVsyncEnabled s \<and> mHWVsyncAvailable s then
        (call (SetVsyncEnabled True) (call ResetModel s))\<lparr>mPrimaryHWVsyncEnabled := True\<rparr>
      else s)"

text \<open>\<^verbatim>\<open>Scheduler::disableHardwareVsync\<close> (lines 512-521).\<close>

definition disableHardwareVsync :: "bool \<Rightarrow> Scheduler \<Rightarrow> Scheduler" where
  "disableHardwareVsync makeUnavailable s =
     (let s1 = (if mPrimaryHWVsyncEnabled s then
                  (call (SetVsyncEnabled False) s)\<lparr>mPrimaryHWVsyncEnabled := False\<rparr>
                else s)
      in if makeUnavailable then s1\<lparr>mHWVsyncAvailable := False\<rparr> else s1)"

text \<open>\<^verbatim>\<open>Scheduler::setVsyncPeriod\<close> (lines 567-576).\<close>

definition setVsyncPeriod :: "nsecs_t \<Rightarrow> bool \<Rightarrow> Scheduler \<Rightarrow> Scheduler" where
  "setVsyncPeriod period force_resync s =
     (let s1 = call (StartPeriodTransition period) s
      in if \<not> mPrimaryHWVsyncEnabled s1 \<or> force_resync then
           (call (SetVsyncEnabled True) (call ResetModel s1))\<lparr>mPrimaryHWVsyncEnabled := True\<rparr>
         else s1)"

text \<open>\<^verbatim>\<open>Scheduler::resyncToHardwareVsync\<close> (lines 523-540). The assignment
  \<^verbatim>\<open>mHWVsyncAvailable = makeAvailable\<close> runs in the branch where \<^verbatim>\<open>makeAvailable\<close> is
  true, before the period is looked at; \<open>locked\<close> is the block under \<^verbatim>\<open>mHWVsyncLock\<close>,
  \<open>None\<close> where it returns.\<close>

definition resyncToHardwareVsync :: "bool \<Rightarrow> nsecs_t \<Rightarrow> bool \<Rightarrow> Scheduler \<Rightarrow> Scheduler" where
  "resyncToHardwareVsync makeAvailable period force_resync s =
     (let locked =
            (if makeAvailable then Some (s\<lparr>mHWVsyncAvailable := makeAvailable\<rparr>)
             else if \<not> mHWVsyncAvailable s then None
             else Some s)
      in case locked of
           None \<Rightarrow> s
         | Some s1 \<Rightarrow> if period \<le> 0 then s1 else setVsyncPeriod period force_resync s1)"

text \<open>\<^verbatim>\<open>Scheduler::resync\<close> (lines 556-565); \<open>now\<close> is what \<^verbatim>\<open>systemTime()\<close> returns.
  \<^verbatim>\<open>kIgnoreDelay\<close> is \<^verbatim>\<open>ms2ns(750)\<close>. The exchange stores \<open>now\<close> whether or not the
  resync follows.\<close>

definition kIgnoreDelay :: nsecs_t where
  "kIgnoreDelay = 750 * 1000000"

definition resync :: "Headers \<Rightarrow> RefreshRateConfigs \<Rightarrow> nsecs_t \<Rightarrow> Scheduler \<Rightarrow> Scheduler" where
  "resync h cfg now s =
     (let last = mLastResyncTime s;
          s1 = s\<lparr>mLastResyncTime := now\<rparr>
      in if now - last > kIgnoreDelay then
           resyncToHardwareVsync False (getVsyncPeriod (getCurrentRefreshRate cfg))
             (force_resync_default h) s1
         else s1)"

text \<open>\<^verbatim>\<open>Scheduler::resyncAndRefresh\<close> (lines 542-554).\<close>

definition resyncAndRefresh :: "Headers \<Rightarrow> RefreshRateConfigs \<Rightarrow> nsecs_t \<Rightarrow> Scheduler \<Rightarrow> Scheduler" where
  "resyncAndRefresh h cfg now s =
     (let s1 = resync h cfg now s
      in if \<not> mDisplayIdle s1 then s1
         else
           let refreshRate = getCurrentRefreshRate cfg;
               s2 = call RepaintEverythingForHWC s1;
               s3 = resyncToHardwareVsync True (getVsyncPeriod refreshRate) True s2
           in s3\<lparr>mDisplayIdle := False\<rparr>)"

text \<open>\<^verbatim>\<open>Scheduler::addResyncSample\<close> (lines 578-595). The controller's
  \<^verbatim>\<open>addHwVsyncTimestamp\<close> is a collaborator: \<open>addHwVsyncTimestamp\<close> is the pair of its
  return value and of what it writes to \<^verbatim>\<open>periodFlushed\<close>. The result is the final
  \<^verbatim>\<open>*periodFlushed\<close> and the new state.\<close>

definition addResyncSample ::
  "bool \<times> bool \<Rightarrow> nsecs_t \<Rightarrow> nsecs_t option \<Rightarrow> Scheduler \<Rightarrow> bool \<times> Scheduler" where
  "addResyncSample addHwVsyncTimestamp timestamp hwcVsyncPeriod s =
     (let (needsHwVsync, periodFlushed, s1) =
            (if mPrimaryHWVsyncEnabled s then
               (fst addHwVsyncTimestamp, snd addHwVsyncTimestamp,
                call (AddHwVsyncTimestamp timestamp hwcVsyncPeriod) s)
             else (False, False, s))
      in (periodFlushed,
          if needsHwVsync then enableHardwareVsync s1 else disableHardwareVsync False s1))"

text \<open>\<^verbatim>\<open>Scheduler::addPresentFence\<close> (lines 597-603); \<open>needsHwVsync\<close> is what the
  controller's \<^verbatim>\<open>addPresentFence\<close> returns.\<close>

definition addPresentFence :: "bool \<Rightarrow> Scheduler \<Rightarrow> Scheduler" where
  "addPresentFence needsHwVsync s =
     (let s1 = call AddPresentFence s
      in if needsHwVsync then enableHardwareVsync s1 else disableHardwareVsync False s1)"

text \<open>\<^verbatim>\<open>Scheduler::kernelIdleTimerCallback\<close> (lines 736-758).\<close>

definition FPS_THRESHOLD_FOR_KERNEL_TIMER :: Fps where
  "FPS_THRESHOLD_FOR_KERNEL_TIMER = 65"

definition kernelIdleTimerCallback ::
  "Headers \<Rightarrow> RefreshRateConfigs \<Rightarrow> TimerState \<Rightarrow> Scheduler \<Rightarrow> Scheduler" where
  "kernelIdleTimerCallback h cfg state s =
     (let refreshRate = getCurrentRefreshRate cfg;
          s1 =
            (if state = Reset \<and>
                greaterThanWithMargin h (getFps refreshRate) FPS_THRESHOLD_FOR_KERNEL_TIMER then
               resyncToHardwareVsync True (getVsyncPeriod refreshRate) (force_resync_default h) s
             else if state = Expired \<and>
                lessThanOrEqualWithMargin h (getFps refreshRate) FPS_THRESHOLD_FOR_KERNEL_TIMER then
               disableHardwareVsync False s
             else s)
      in call (KernelTimerChanged (state = Expired)) s1)"

text \<open>\<^verbatim>\<open>Scheduler::setIdleState\<close> (lines 990-992) and \<^verbatim>\<open>Scheduler::updateThermalFps\<close>
  (lines 994-997).\<close>

definition setIdleState :: "Scheduler \<Rightarrow> Scheduler" where
  "setIdleState s = s\<lparr>mDisplayIdle := True\<rparr>"

definition updateThermalFps :: "real \<Rightarrow> Scheduler \<Rightarrow> Scheduler" where
  "updateThermalFps fps s = call (LayerHistoryUpdateThermalFps fps) (s\<lparr>mThermalFps := fps\<rparr>)"

section \<open>Choosing the display mode\<close>

text \<open>\<^verbatim>\<open>Scheduler::calculateRefreshRateModeId\<close> (lines 902-922), returning the mode id and
  the value left in \<^verbatim>\<open>*consideredSignals\<close>, which the function first resets to \<^verbatim>\<open>{}\<close>.\<close>

definition calculateRefreshRateModeId ::
  "RefreshRateConfigs \<Rightarrow> Scheduler \<Rightarrow> DisplayModeId \<times> GlobalSignals" where
  "calculateRefreshRateModeId cfg s =
     (if mDisplayPowerTimer s \<and>
         (\<not> isDisplayPowerStateNormal (mFeatures s) \<or> displayPowerTimer (mFeatures s) = Reset) then
        (getModeId (getMaxRefreshRateByPolicy cfg), \<lparr>touch = False, idle = False\<rparr>)
      else
        let touchActive = (mTouchTimer s \<and> touchState (mFeatures s) = Active);
            idle = (mIdleTimer s \<and> idleTimer (mFeatures s) = Expired);
            (best, consideredSignals) =
              getBestRefreshRate cfg (contentRequirements (mFeatures s))
                \<lparr>touch = touchActive, idle = idle\<rparr>
        in (getModeId best, consideredSignals))"

text \<open>\<^verbatim>\<open>Scheduler::updateFrameRateOverrides\<close> (lines 819-841). \<^verbatim>\<open>std::equal\<close> over two
  ranges holds when they have the same length and the predicate holds at every
  position.\<close>

definition updateFrameRateOverrides ::
  "Headers \<Rightarrow> RefreshRateConfigs \<Rightarrow> GlobalSignals \<Rightarrow> Fps \<Rightarrow> Scheduler \<Rightarrow> bool \<times> Scheduler" where
  "updateFrameRateOverrides h cfg consideredSignals displayRefreshRate s =
     (if \<not> supportsFrameRateOverride cfg then (False, s)
      else if \<not> idle consideredSignals then
        let frameRateOverrides =
              getFrameRateOverrides cfg (contentRequirements (mFeatures s)) displayRefreshRate
                (touch consideredSignals)
        in if \<not> list_all2 (\<lambda>a b. fst a = fst b \<and> equalsWithMargin h (snd a) (snd b))
                  (mFrameRateOverridesByContent s) frameRateOverrides
           then (True, s\<lparr>mFrameRateOverridesByContent := frameRateOverrides\<rparr>)
           else (False, s)
      else (False, s))"

text \<open>\<^verbatim>\<open>Scheduler::onNonPrimaryDisplayModeChanged\<close> (lines 421-430), with the macro
  \<^verbatim>\<open>RETURN_IF_INVALID_HANDLE\<close>.\<close>

definition onNonPrimaryDisplayModeChanged ::
  "ConnectionHandle \<Rightarrow> PhysicalDisplayId \<Rightarrow> DisplayModeId \<Rightarrow> nsecs_t \<Rightarrow> Scheduler \<Rightarrow> Scheduler" where
  "onNonPrimaryDisplayModeChanged handle displayId mode vsyncPeriod s =
     (case mConnections s handle of
        None \<Rightarrow> s
      | Some _ \<Rightarrow> call (OnModeChanged handle displayId mode vsyncPeriod) s)"

text \<open>\<^verbatim>\<open>Scheduler::onPrimaryDisplayModeChanged\<close> (lines 372-384).\<close>

definition onPrimaryDisplayModeChanged ::
  "ConnectionHandle \<Rightarrow> PhysicalDisplayId \<Rightarrow> DisplayModeId \<Rightarrow> nsecs_t \<Rightarrow> Scheduler \<Rightarrow> Scheduler" where
  "onPrimaryDisplayModeChanged handle displayId mode vsyncPeriod s =
     onNonPrimaryDisplayModeChanged handle displayId mode vsyncPeriod
       (s\<lparr>mFeatures := (mFeatures s)
            \<lparr>cachedModeChangedParams :=
               Some \<lparr>mcpHandle = handle, mcpDisplayId = displayId, mcpModeId = mode,
                     mcpVsyncPeriod = vsyncPeriod\<rparr>,
             contentRequirements := []\<rparr>\<rparr>)"

text \<open>\<^verbatim>\<open>Scheduler::dispatchCachedReportedMode\<close> (lines 386-419).\<close>

definition dispatchCachedReportedMode :: "RefreshRateConfigs \<Rightarrow> Scheduler \<Rightarrow> Scheduler" where
  "dispatchCachedReportedMode cfg s =
     (case modeId (mFeatures s) of
        None \<Rightarrow> s
      | Some mode \<Rightarrow>
          (case cachedModeChangedParams (mFeatures s) of
             None \<Rightarrow> s
           | Some params \<Rightarrow>
               if getModeId (getCurrentRefreshRate cfg) \<noteq> mode then s
               else
                 let vsyncPeriod = getVsyncPeriod (getRefreshRateFromModeId cfg mode)
                 in if mode = mcpModeId params \<and> vsyncPeriod = mcpVsyncPeriod params then s
                    else
                      let params' = params\<lparr>mcpModeId := mode, mcpVsyncPeriod := vsyncPeriod\<rparr>;
                          s1 = s\<lparr>mFeatures := (mFeatures s)
                                   \<lparr>cachedModeChangedParams := Some params'\<rparr>\<rparr>
                      in onNonPrimaryDisplayModeChanged (mcpHandle params') (mcpDisplayId params')
                           (mcpModeId params') (mcpVsyncPeriod params') s1))"

text \<open>The cast \<^verbatim>\<open>(int32_t)\<close> of a float truncates towards zero (for a value whose
  truncation fits 32 bits; the frame rates of the file do).\<close>

definition int32_t_of_float :: "real \<Rightarrow> int" where
  "int32_t_of_float x = (if 0 \<le> x then \<lfloor>x\<rfloor> else \<lceil>x\<rceil>)"

text \<open>The condition \<^verbatim>\<open>mThermalFps > 0 && (int32_t)newRefreshRate.getFps().getValue() >
  (int32_t)mThermalFps\<close>, which the file writes out four times (lines 672, 685, 868,
  881).\<close>

definition aboveThermalFps :: "Scheduler \<Rightarrow> RefreshRate \<Rightarrow> bool" where
  "aboveThermalFps s newRefreshRate =
     (mThermalFps s > 0 \<and>
      int32_t_of_float (getFps newRefreshRate) > int32_t_of_float (mThermalFps s))"

text \<open>What can go wrong: \<^verbatim>\<open>mode->getId()\<close> on a \<^verbatim>\<open>DisplayModePtr\<close> that the host's
  \<^verbatim>\<open>getModeFromFps\<close> left null.\<close>

datatype Error = NullDisplayModePtr

text \<open>The block under \<^verbatim>\<open>mFeatureStateLock\<close> from the comparison
  \<^verbatim>\<open>mFeatures.modeId == newModeId\<close> on; \<^verbatim>\<open>chooseRefreshRateForContent\<close> (lines 662-680)
  and \<^verbatim>\<open>handleTimerStateChanged\<close> (lines 859-876) hold the same text. The host's
  \<^verbatim>\<open>getModeFromFps\<close> is the function \<open>getModeFromFps\<close>, \<open>None\<close> where it leaves the
  pointer null. The result is the new state and \<^verbatim>\<open>frameRateChanged\<close>.\<close>

definition adoptModeId ::
  "RefreshRateConfigs \<Rightarrow> (real \<Rightarrow> DisplayModeId option) \<Rightarrow> DisplayModeId \<Rightarrow> GlobalSignals \<Rightarrow>
   Scheduler \<Rightarrow> Error + (Scheduler \<times> bool)" where
  "adoptModeId cfg getModeFromFps newModeId consideredSignals s =
     (let newRefreshRate = getRefreshRateFromModeId cfg newModeId
      in if modeId (mFeatures s) = Some newModeId then
           Inr (if \<not> idle consideredSignals then dispatchCachedReportedMode cfg s else s, False)
         else
           let s1 = s\<lparr>mFeatures := (mFeatures s)\<lparr>modeId := Some newModeId\<rparr>\<rparr>
           in if aboveThermalFps s1 newRefreshRate then
                (case getModeFromFps (mThermalFps s1) of
                   None \<Rightarrow> Inl NullDisplayModePtr
                 | Some mode \<Rightarrow> Inr (s1\<lparr>mFeatures := (mFeatures s1)\<lparr>modeId := Some mode\<rparr>\<rparr>, True))
              else Inr (s1, True))"

text \<open>The calls to the host after the lock is released; again the same text in
  \<^verbatim>\<open>chooseRefreshRateForContent\<close> (lines 682-702) and \<^verbatim>\<open>handleTimerStateChanged\<close>
  (lines 878-898).\<close>

definition reportMode ::
  "RefreshRateConfigs \<Rightarrow> (real \<Rightarrow> DisplayModeId option) \<Rightarrow> DisplayModeId \<Rightarrow> GlobalSignals \<Rightarrow>
   bool \<Rightarrow> bool \<Rightarrow> Scheduler \<Rightarrow> Error + Scheduler" where
  "reportMode cfg getModeFromFps newModeId consideredSignals frameRateChanged
       frameRateOverridesChanged s =
     (let event = (if idle consideredSignals then ModeEventNone else ModeEventChanged);
          reported =
            (if frameRateChanged then
               let newRefreshRate = getRefreshRateFromModeId cfg newModeId
               in if aboveThermalFps s newRefreshRate then
                    (case getModeFromFps (mThermalFps s) of
                       None \<Rightarrow> Inl NullDisplayModePtr
                     | Some mode \<Rightarrow>
                         let newThermalRefreshRate = getRefreshRateFromModeId cfg mode
                         in Inr (call (ChangeRefreshRate newThermalRefreshRate event) s))
                  else Inr (call (ChangeRefreshRate newRefreshRate event) s)
             else Inr s)
      in case reported of
           Inl e \<Rightarrow> Inl e
         | Inr s1 \<Rightarrow>
             Inr (if frameRateOverridesChanged then call TriggerOnFrameRateOverridesChanged s1
                  else s1))"

text \<open>\<^verbatim>\<open>Scheduler::chooseRefreshRateForContent\<close> (lines 643-703); \<open>summary\<close> is what
  \<^verbatim>\<open>mLayerHistory->summarize(systemTime())\<close> returns.\<close>

definition chooseRefreshRateForContent ::
  "Headers \<Rightarrow> RefreshRateConfigs \<Rightarrow> (real \<Rightarrow> DisplayModeId option) \<Rightarrow> Summary \<Rightarrow>
   Scheduler \<Rightarrow> Error + Scheduler" where
  "chooseRefreshRateForContent h cfg getModeFromFps summary s =
     (if \<not> canSwitch cfg then Inr s
      else
        let s1 = s\<lparr>mFeatures := (mFeatures s)\<lparr>contentRequirements := summary\<rparr>\<rparr>;
            (newModeId, consideredSignals) = calculateRefreshRateModeId cfg s1;
            newRefreshRate = getRefreshRateFromModeId cfg newModeId;
            (frameRateOverridesChanged, s2) =
              updateFrameRateOverrides h cfg consideredSignals (getFps newRefreshRate) s1
        in case adoptModeId cfg getModeFromFps newModeId consideredSignals s2 of
             Inl e \<Rightarrow> Inl e
           | Inr (s3, frameRateChanged) \<Rightarrow>
               reportMode cfg getModeFromFps newModeId consideredSignals frameRateChanged
                 frameRateOverridesChanged s3)"

text \<open>\<^verbatim>\<open>Scheduler::handleTimerStateChanged\<close> (lines 843-900). The pointer
  \<^verbatim>\<open>currentState\<close> into \<^verbatim>\<open>mFeatures\<close> is the pair of a reader and a writer of that
  field. The result is the returned flag and the new state.\<close>

definition handleTimerStateChanged ::
  "Headers \<Rightarrow> RefreshRateConfigs \<Rightarrow> (real \<Rightarrow> DisplayModeId option) \<Rightarrow>
   (Features \<Rightarrow> 'a) \<Rightarrow> ('a \<Rightarrow> Features \<Rightarrow> Features) \<Rightarrow> 'a \<Rightarrow>
   Scheduler \<Rightarrow> Error + (bool \<times> Scheduler)" where
  "handleTimerStateChanged h cfg getModeFromFps currentState setCurrentState newState s =
     (if currentState (mFeatures s) = newState then Inr (False, s)
      else
        let s1 = s\<lparr>mFeatures := setCurrentState newState (mFeatures s)\<rparr>;
            (newModeId, consideredSignals) = calculateRefreshRateModeId cfg s1;
            newRefreshRate = getRefreshRateFromModeId cfg newModeId;
            (frameRateOverridesChanged, s2) =
              updateFrameRateOverrides h cfg consideredSignals (getFps newRefreshRate) s1
        in case adoptModeId cfg getModeFromFps newModeId consideredSignals s2 of
             Inl e \<Rightarrow> Inl e
           | Inr (s3, refreshRateChanged) \<Rightarrow>
               (case reportMode cfg getModeFromFps newModeId consideredSignals refreshRateChanged
                       frameRateOverridesChanged s3 of
                  Inl e \<Rightarrow> Inl e
                | Inr s4 \<Rightarrow> Inr (touch consideredSignals, s4)))"

text \<open>The timer callbacks (lines 760-782).\<close>

definition idleTimerCallback ::
  "Headers \<Rightarrow> RefreshRateConfigs \<Rightarrow> (real \<Rightarrow> DisplayModeId option) \<Rightarrow> TimerState \<Rightarrow>
   Scheduler \<Rightarrow> Error + Scheduler" where
  "idleTimerCallback h cfg getModeFromFps state s =
     (if mHandleIdleTimeout s then
        (case handleTimerStateChanged h cfg getModeFromFps idleTimer
                (\<lambda>v f. f\<lparr>idleTimer := v\<rparr>) state s of
           Inl e \<Rightarrow> Inl e
         | Inr (_, s1) \<Rightarrow> Inr s1)
      else Inr s)"

definition touchTimerCallback ::
  "Headers \<Rightarrow> RefreshRateConfigs \<Rightarrow> (real \<Rightarrow> DisplayModeId option) \<Rightarrow> TimerState \<Rightarrow>
   Scheduler \<Rightarrow> Error + Scheduler" where
  "touchTimerCallback h cfg getModeFromFps state s =
     (let touchNow = (if state = Reset then Active else Inactive)
      in case handleTimerStateChanged h cfg getModeFromFps touchState
                (\<lambda>v f. f\<lparr>touchState := v\<rparr>) touchNow s of
           Inl e \<Rightarrow> Inl e
         | Inr (touched, s1) \<Rightarrow> Inr (if touched then call LayerHistoryClear s1 else s1))"

definition displayPowerTimerCallback ::
  "Headers \<Rightarrow> RefreshRateConfigs \<Rightarrow> (real \<Rightarrow> DisplayModeId option) \<Rightarrow> TimerState \<Rightarrow>
   Scheduler \<Rightarrow> Error + Scheduler" where
  "displayPowerTimerCallback h cfg getModeFromFps state s =
     (case handleTimerStateChanged h cfg getModeFromFps displayPowerTimer
             (\<lambda>v f. f\<lparr>displayPowerTimer := v\<rparr>) state s of
        Inl e \<Rightarrow> Inl e
      | Inr (_, s1) \<Rightarrow> Inr s1)"

section \<open>Sequences of calls on the hardware vsync state\<close>

text \<open>The functions of the file that read or write \<^verbatim>\<open>mPrimaryHWVsyncEnabled\<close> or
  \<^verbatim>\<open>mHWVsyncAvailable\<close>, directly or through a call, with their arguments and with
  what the clock and the controller return to them. \<^verbatim>\<open>setVsyncPeriod\<close> is reached
  through \<^verbatim>\<open>resyncToHardwareVsync\<close> only.\<close>

datatype HwVsyncCall =
    EnableHardwareVsync
  | DisableHardwareVsync bool
  | ResyncToHardwareVsync bool nsecs_t bool
  | Resync nsecs_t
  | ResyncAndRefresh nsecs_t
  | AddResyncSample "bool \<times> bool" nsecs_t "nsecs_t option"
  | AddPresentFenceCall bool
  | KernelIdleTimerCallback TimerState
  | SetIdleState

fun hwVsyncCall :: "Headers \<Rightarrow> RefreshRateConfigs \<Rightarrow> HwVsyncCall \<Rightarrow> Scheduler \<Rightarrow> Scheduler" where
  "hwVsyncCall h cfg EnableHardwareVsync s = enableHardwareVsync s"
| "hwVsyncCall h cfg (DisableHardwareVsync makeUnavailable) s = disableHardwareVsync makeUnavailable s"
| "hwVsyncCall h cfg (ResyncToHardwareVsync makeAvailable period force_resync) s =
     resyncToHardwareVsync makeAvailable period force_resync s"
| "hwVsyncCall h cfg (Resync now) s = resync h cfg now s"
| "hwVsyncCall h cfg (ResyncAndRefresh now) s = resyncAndRefresh h cfg now s"
| "hwVsyncCall h cfg (AddResyncSample r timestamp hwcVsyncPeriod) s =
     snd (addResyncSample r timestamp hwcVsyncPeriod s)"
| "hwVsyncCall h cfg (AddPresentFenceCall needsHwVsync) s = addPresentFence needsHwVsync s"
| "hwVsyncCall h cfg (KernelIdleTimerCallback state) s = kernelIdleTimerCallback h cfg state s"
| "hwVsyncCall h cfg SetIdleState s = setIdleState s"

fun hwVsyncCalls :: "Headers \<Rightarrow> RefreshRateConfigs \<Rightarrow> HwVsyncCall list \<Rightarrow> Scheduler \<Rightarrow> Scheduler" where
  "hwVsyncCalls h cfg [] s = s"
| "hwVsyncCalls h cfg (c # cs) s = hwVsyncCalls h cfg cs (hwVsyncCall h cfg c s)"

text \<open>Whether a call, made in the state \<open>s\<close>, reaches
  \<^verbatim>\<open>resyncToHardwareVsync\<close> with \<^verbatim>\<open>makeAvailable\<close> true: the function itself with that
  argument; \<^verbatim>\<open>resyncAndRefresh\<close> when \<^verbatim>\<open>mDisplayIdle\<close> is set after its \<^verbatim>\<open>resync()\<close>
  (lines 545-552); \<^verbatim>\<open>kernelIdleTimerCallback\<close> on a reset with the current rate above
  the threshold (lines 743-748).\<close>

fun passesMakeAvailable ::
  "Headers \<Rightarrow> RefreshRateConfigs \<Rightarrow> HwVsyncCall \<Rightarrow> Scheduler \<Rightarrow> bool" where
  "passesMakeAvailable h cfg (ResyncToHardwareVsync makeAvailable _ _) s = makeAvailable"
| "passesMakeAvailable h cfg (ResyncAndRefresh now) s = mDisplayIdle (resync h cfg now s)"
| "passesMakeAvailable h cfg (KernelIdleTimerCallback state) s =
     (state = Reset \<and>
      greaterThanWithMargin h (getFps (getCurrentRefreshRate cfg)) FPS_THRESHOLD_FOR_KERNEL_TIMER)"
| "passesMakeAvailable h cfg _ s = False"

text \<open>No call of the sequence, made in the state the calls before it leave, reaches
  \<^verbatim>\<open>resyncToHardwareVsync\<close> with \<^verbatim>\<open>makeAvailable\<close> true.\<close>

fun noneMakesAvailable ::
  "Headers \<Rightarrow> RefreshRateConfigs \<Rightarrow> HwVsyncCall list \<Rightarrow> Scheduler \<Rightarrow> bool" where
  "noneMakesAvailable h cfg [] s = True"
| "noneMakesAvailable h cfg (c # cs) s =
     (\<not> passesMakeAvailable h cfg c s \<and> noneMakesAvailable h cfg cs (hwVsyncCall h cfg c s))"

section \<open>Reading the record of calls\<close>

fun isChangeRefreshRate :: "Call \<Rightarrow> bool" where
  "isChangeRefreshRate (ChangeRefreshRate _ _) = True"
| "isChangeRefreshRate _ = False"

fun isOnModeChanged :: "Call \<Rightarrow> bool" where
  "isOnModeChanged (OnModeChanged _ _ _ _) = True"
| "isOnModeChanged _ = False"

section \<open>What a mode selection reads and what a replay sends\<close>

text \<open>The members that \<^verbatim>\<open>calculateRefreshRateModeId\<close> and the thermal test read.\<close>

definition selectionInputs ::
  "Scheduler \<Rightarrow> bool \<times> bool \<times> bool \<times> bool \<times> TimerState \<times> TouchState \<times> TimerState \<times> Summary \<times> real" where
  "selectionInputs s =
     (mDisplayPowerTimer s, mTouchTimer s, mIdleTimer s,
      isDisplayPowerStateNormal (mFeatures s), displayPowerTimer (mFeatures s),
      touchState (mFeatures s), idleTimer (mFeatures s), contentRequirements (mFeatures s),
      mThermalFps s)"

text \<open>The calls \<^verbatim>\<open>dispatchCachedReportedMode\<close> makes when \<^verbatim>\<open>mFeatures.modeId\<close> is \<open>m\<close>
  (\<open>dispatchCachedReportedMode_calls\<close> below): one \<^verbatim>\<open>onModeChanged\<close> when there are
  cached parameters, the display's current mode is \<open>m\<close>, the cached mode or period
  differs from that of \<open>m\<close>, and the cached handle is in the registry; none otherwise.\<close>

definition cachedModeReplay :: "RefreshRateConfigs \<Rightarrow> Scheduler \<Rightarrow> DisplayModeId \<Rightarrow> Call list" where
  "cachedModeReplay cfg s m =
     (case cachedModeChangedParams (mFeatures s) of
        None \<Rightarrow> []
      | Some p \<Rightarrow>
          if getModeId (getCurrentRefreshRate cfg) = m \<and>
             (mcpModeId p \<noteq> m \<or>
              mcpVsyncPeriod p \<noteq> getVsyncPeriod (getRefreshRateFromModeId cfg m)) \<and>
             mConnections s (mcpHandle p) \<noteq> None
          then [OnModeChanged (mcpHandle p) (mcpDisplayId p) m
                  (getVsyncPeriod (getRefreshRateFromModeId cfg m))]
          else [])"

section \<open>A display with three modes\<close>

text \<open>Concrete values for the scenarios: a display with a 60, a 90 and a 120 Hz mode
  (and a fourth mode of 90.5 Hz), a policy that always answers with the mode \<open>best\<close>,
  and a scheduler that has done nothing yet.\<close>

definition rate60 :: RefreshRate where
  "rate60 = \<lparr>getModeId = 0, getFps = 60, getVsyncPeriod = 16666667\<rparr>"

definition rate90 :: RefreshRate where
  "rate90 = \<lparr>getModeId = 1, getFps = 90, getVsyncPeriod = 11111111\<rparr>"

definition rate120 :: RefreshRate where
  "rate120 = \<lparr>getModeId = 2, getFps = 120, getVsyncPeriod = 8333333\<rparr>"

definition rate90_5 :: RefreshRate where
  "rate90_5 = \<lparr>getModeId = 3, getFps = 181 / 2, getVsyncPeriod = 11049724\<rparr>"

definition modeOfId :: "DisplayModeId \<Rightarrow> RefreshRate" where
  "modeOfId i = (if i = 1 then rate90 else if i = 2 then rate120 else if i = 3 then rate90_5
                 else rate60)"

definition fixedPolicy :: "bool \<Rightarrow> RefreshRate \<Rightarrow> RefreshRateConfigs" where
  "fixedPolicy overrides best =
     \<lparr>supportsFrameRateOverride = overrides,
      canSwitch = True,
      getCurrentRefreshRate = rate60,
      getRefreshRateFromModeId = modeOfId,
      getMaxRefreshRateByPolicy = rate120,
      getBestRefreshRate = (\<lambda>_ signals. (best, \<lparr>touch = touch signals, idle = idle signals\<rparr>)),
      getFrameRateOverrides = (\<lambda>_ _ _. []),
      getFrameRateDivider = (\<lambda>_ _. 1)\<rparr>"

definition headers :: Headers where
  "headers =
     \<lparr>INVALID_ID = 2 ^ 64 - 1,
      force_resync_default = False,
      equalsWithMargin = (\<lambda>a b. \<bar>a - b\<bar> < 1 / 1000),
      greaterThanWithMargin = (\<lambda>a b. a > b + 1 / 1000),
      lessThanOrEqualWithMargin = (\<lambda>a b. \<not> a > b + 1 / 1000)\<rparr>"

definition hostModeFromFps :: "real \<Rightarrow> DisplayModeId option" where
  "hostModeFromFps fps = (if fps = 90 then Some 1 else if fps = 120 then Some 2 else Some 0)"

definition freshScheduler :: Scheduler where
  "freshScheduler =
     \<lparr>mFeatures =
        \<lparr>modeId = None, contentRequirements = [], idleTimer = Reset, touchState = Inactive,
         displayPowerTimer = Expired, isDisplayPowerStateNormal = True,
         cachedModeChangedParams = None\<rparr>,
      mIdleTimer = False, mTouchTimer = False, mDisplayPowerTimer = False,
      mHandleIdleTimeout = False,
      mThermalFps = 0,
      mFrameRateOverridesFromBackdoor = Map.empty,
      mFrameRateOverridesByContent = [],
      mPrimaryHWVsyncEnabled = False,
      mHWVsyncAvailable = False,
      mLastResyncTime = 0,
      mDisplayIdle = False,
      mInjectVSyncs = False,
      mVSyncInjector = False,
      mInjectorConnectionHandle = ConnectionHandle (2 ^ 64 - 1),
      mNextConnectionHandleId = 0,
      mConnections = Map.empty,
      calls = []\<rparr>"

text \<open>A scheduler that has chosen the 60 Hz mode, whose last reported mode change was
  to the 120 Hz mode on the connection with handle 0.\<close>

definition settledScheduler :: Scheduler where
  "settledScheduler =
     freshScheduler
       \<lparr>mFeatures := (mFeatures freshScheduler)
          \<lparr>modeId := Some 0,
           cachedModeChangedParams :=
             Some \<lparr>mcpHandle = ConnectionHandle 0, mcpDisplayId = 0, mcpModeId = 2,
                   mcpVsyncPeriod = 8333333\<rparr>\<rparr>,
        mNextConnectionHandleId := 1,
        mConnections := [ConnectionHandle 0 \<mapsto>
          \<lparr>connection = CallResyncAndRefresh,
           thread = \<lparr>vsyncSource = DispSyncSource ''app'' 1000000 0,
                     throttleVsync = ThrottleUnlessVsyncValid,
                     getVsyncPeriodFunction = OverrideAwareVsyncPeriod,
                     hotplugConnected = False, screenAcquired = False\<rparr>\<rparr>]\<rparr>"

section \<open>Frame rate overrides: what a lookup returns\<close>

text \<open>
  Claim C4, as amended. Where the policy supports frame rate overrides,
  \<^verbatim>\<open>getFrameRateOverride(u)\<close> returns the backdoor override of \<open>u\<close> if there is one,
  otherwise the content-derived override of \<open>u\<close> if there is one, otherwise nothing. In
  particular, with a content-derived override of 45 for uid 42, setting the backdoor
  override of 42 to 30 makes the lookup return 30, and erasing it again (a rate of 0)
  makes the lookup return 45. (Where the policy does not support overrides the lookup
  returns nothing: the first line of the function.)
\<close>

theorem getFrameRateOverride_backdoor_first:
  "supportsFrameRateOverride cfg \<Longrightarrow>
   getFrameRateOverride cfg s u =
     (case mFrameRateOverridesFromBackdoor s u of
        Some fps \<Rightarrow> Some fps
      | None \<Rightarrow> map_of (mFrameRateOverridesByContent s) u) \<and>
   (map_of (mFrameRateOverridesByContent s) 42 = Some 45 \<longrightarrow>
      getFrameRateOverride cfg (setPreferredRefreshRateForUid 42 30 s) 42 = Some 30 \<and>
      getFrameRateOverride cfg
        (setPreferredRefreshRateForUid 42 0 (setPreferredRefreshRateForUid 42 30 s)) 42 = Some 45)"
  by (auto simp: getFrameRateOverride_def setPreferredRefreshRateForUid_def split: option.splits)

theorem getFrameRateOverride_backdoor_first_witness:
  "getFrameRateOverride (fixedPolicy True rate60)
     (setPreferredRefreshRateForUid 42 30
        (freshScheduler\<lparr>mFrameRateOverridesByContent := [(42, 45)]\<rparr>)) 42 = Some 30 \<and>
   getFrameRateOverride (fixedPolicy True rate60)
     (setPreferredRefreshRateForUid 42 0
        (setPreferredRefreshRateForUid 42 30
           (freshScheduler\<lparr>mFrameRateOverridesByContent := [(42, 45)]\<rparr>))) 42 = Some 45 \<and>
   getFrameRateOverride (fixedPolicy True rate60)
     (freshScheduler\<lparr>mFrameRateOverridesByContent := [(42, 45)]\<rparr>) 7 = None"
  using getFrameRateOverride_backdoor_first
    [of "fixedPolicy True rate60" "freshScheduler\<lparr>mFrameRateOverridesByContent := [(42, 45)]\<rparr>" 7]
  by (simp add: fixedPolicy_def freshScheduler_def)

text \<open>The claim as it was stated fails where the policy does not support overrides:
  uid 42 has a backdoor override of 30, and the lookup returns nothing.\<close>

theorem getFrameRateOverride_unsupported_counterexample:
  "mFrameRateOverridesFromBackdoor
     (setPreferredRefreshRateForUid 42 30 freshScheduler) 42 = Some 30 \<and>
   getFrameRateOverride (fixedPolicy False rate60)
     (setPreferredRefreshRateForUid 42 30 freshScheduler) 42 = None"
  by (simp add: getFrameRateOverride_def setPreferredRefreshRateForUid_def fixedPolicy_def
      freshScheduler_def)

section \<open>Frame rate overrides: what the backdoor stores\<close>

text \<open>
  Claim C5. \<^verbatim>\<open>setPreferredRefreshRateForUid({uid, f})\<close> leaves the scheduler as it was
  when \<open>0 < f < 1\<close>; erases the backdoor entry of \<open>uid\<close> when \<open>f = 0\<close>; and otherwise sets
  the backdoor entry of \<open>uid\<close> to \<open>f\<close>. So a call with \<open>f\<close> followed by one with 0 leaves
  no backdoor entry for \<open>uid\<close>. The content-derived overrides are never touched.
\<close>

theorem setPreferredRefreshRateForUid_cases:
  "(0 < f \<and> f < 1 \<longrightarrow> setPreferredRefreshRateForUid uid f s = s) \<and>
   (f = 0 \<longrightarrow> setPreferredRefreshRateForUid uid f s =
      s\<lparr>mFrameRateOverridesFromBackdoor := (mFrameRateOverridesFromBackdoor s)(uid := None)\<rparr>) \<and>
   (\<not> (0 < f \<and> f < 1) \<and> f \<noteq> 0 \<longrightarrow> setPreferredRefreshRateForUid uid f s =
      s\<lparr>mFrameRateOverridesFromBackdoor := (mFrameRateOverridesFromBackdoor s)(uid \<mapsto> f)\<rparr>) \<and>
   mFrameRateOverridesFromBackdoor
     (setPreferredRefreshRateForUid uid 0 (setPreferredRefreshRateForUid uid f s)) uid = None \<and>
   mFrameRateOverridesByContent (setPreferredRefreshRateForUid uid f s) =
     mFrameRateOverridesByContent s"
  by (simp add: setPreferredRefreshRateForUid_def)

theorem setPreferredRefreshRateForUid_cases_witness:
  "setPreferredRefreshRateForUid 7 (1 / 2) freshScheduler = freshScheduler \<and>
   mFrameRateOverridesFromBackdoor (setPreferredRefreshRateForUid 7 30 freshScheduler) 7 = Some 30 \<and>
   mFrameRateOverridesFromBackdoor
     (setPreferredRefreshRateForUid 7 0 (setPreferredRefreshRateForUid 7 30 freshScheduler)) 7 = None"
  using setPreferredRefreshRateForUid_cases [of "1 / 2" 7 freshScheduler]
    setPreferredRefreshRateForUid_cases [of 30 7 freshScheduler]
    setPreferredRefreshRateForUid_cases [of 0 7 "setPreferredRefreshRateForUid 7 30 freshScheduler"]
  by simp

text \<open>
  Claim C10. A negative rate is neither dropped nor taken as an erase:
  \<^verbatim>\<open>setPreferredRefreshRateForUid({uid, f})\<close> with \<open>f < 0\<close> stores \<open>f\<close> as the backdoor
  override of \<open>uid\<close>.
\<close>

theorem setPreferredRefreshRateForUid_negative:
  "f < 0 \<Longrightarrow>
   setPreferredRefreshRateForUid uid f s =
     s\<lparr>mFrameRateOverridesFromBackdoor := (mFrameRateOverridesFromBackdoor s)(uid \<mapsto> f)\<rparr> \<and>
   mFrameRateOverridesFromBackdoor (setPreferredRefreshRateForUid uid f s) uid = Some f"
  by (simp add: setPreferredRefreshRateForUid_def)

theorem setPreferredRefreshRateForUid_negative_witness:
  "mFrameRateOverridesFromBackdoor (setPreferredRefreshRateForUid 7 (- 5) freshScheduler) 7 =
     Some (- 5) \<and>
   getFrameRateOverride (fixedPolicy True rate60)
     (setPreferredRefreshRateForUid 7 (- 5) freshScheduler) 7 = Some (- 5)"
  using setPreferredRefreshRateForUid_negative [of "- 5" 7 freshScheduler]
  by (simp add: getFrameRateOverride_def fixedPolicy_def)

section \<open>Frame rate overrides: a policy without support for them\<close>

text \<open>
  Claim C9. Where the policy reports \<^verbatim>\<open>supportsFrameRateOverride()\<close> as false,
  \<^verbatim>\<open>getFrameRateOverride(uid)\<close> returns nothing for every uid, whatever the two override
  maps hold; every vsync is valid for every uid; \<^verbatim>\<open>makeThrottleVsyncCallback\<close> returns
  the empty callback; and if no connection of the registry has a throttle callback, none
  has one after \<^verbatim>\<open>createConnection\<close> or \<^verbatim>\<open>enableVSyncInjection\<close> either.
\<close>

theorem no_throttling_without_override_support:
  "\<not> supportsFrameRateOverride cfg \<Longrightarrow>
   getFrameRateOverride cfg s uid = None \<and>
   isVsyncValid cfg isVSyncInPhase s expectedVsyncTimestamp uid \<and>
   makeThrottleVsyncCallback cfg = EmptyThrottleVsyncCallback \<and>
   ((\<forall>k c. mConnections s k = Some c \<longrightarrow> throttleVsync (thread c) = EmptyThrottleVsyncCallback) \<longrightarrow>
    (\<forall>k c. mConnections (snd (createConnection cfg connectionName workDuration readyDuration s)) k
              = Some c \<longrightarrow> throttleVsync (thread c) = EmptyThrottleVsyncCallback) \<and>
    (\<forall>k c. mConnections (snd (enableVSyncInjection h enable s)) k
              = Some c \<longrightarrow> throttleVsync (thread c) = EmptyThrottleVsyncCallback))"
  by (auto simp: getFrameRateOverride_def isVsyncValid_def makeThrottleVsyncCallback_def
      createConnection_def createConnectionWithThread_def enableVSyncInjection_def Let_def
      split_def split: option.splits if_splits)

theorem no_throttling_without_override_support_witness:
  "getFrameRateOverride (fixedPolicy False rate60)
     (setPreferredRefreshRateForUid 42 30 freshScheduler) 42 = None \<and>
   mFrameRateOverridesFromBackdoor (setPreferredRefreshRateForUid 42 30 freshScheduler) 42 = Some 30 \<and>
   map_option (\<lambda>c. throttleVsync (thread c))
     (mConnections (snd (createConnection (fixedPolicy False rate60) ''app'' 1000000 0 freshScheduler))
        (ConnectionHandle 0)) = Some EmptyThrottleVsyncCallback"
  using no_throttling_without_override_support
    [of "fixedPolicy False rate60" "setPreferredRefreshRateForUid 42 30 freshScheduler" 42]
  by (simp add: fixedPolicy_def setPreferredRefreshRateForUid_def freshScheduler_def
      createConnection_def createConnectionWithThread_def makeThrottleVsyncCallback_def Let_def)

section \<open>Hardware vsync: the resync throttle\<close>

lemma resyncToHardwareVsync_mLastResyncTime:
  "mLastResyncTime (resyncToHardwareVsync makeAvailable period force_resync s) = mLastResyncTime s"
  by (simp add: resyncToHardwareVsync_def setVsyncPeriod_def call_def Let_def)

lemma resync_mLastResyncTime: "mLastResyncTime (resync h cfg now s) = now"
  by (simp add: resync_def Let_def resyncToHardwareVsync_mLastResyncTime)

lemma resync_within_delay:
  "now - mLastResyncTime s \<le> kIgnoreDelay \<Longrightarrow> resync h cfg now s = s\<lparr>mLastResyncTime := now\<rparr>"
  by (simp add: resync_def Let_def)

text \<open>
  Claim C3, as amended. \<^verbatim>\<open>resync()\<close> always stores the time of the call. It goes on to
  \<^verbatim>\<open>resyncToHardwareVsync(false, current period)\<close> exactly when more than 750 ms have
  passed since the previous call of \<^verbatim>\<open>resync()\<close>, whether or not that call went on to a
  resync; otherwise storing the time is all it does. So for calls at \<open>t\<close>, \<open>t\<close> + 700 ms
  and \<open>t\<close> + 800 ms, neither the second nor the third call resyncs: the third comes
  100 ms after the second.
\<close>

theorem resync_throttle:
  "(now - mLastResyncTime s \<le> kIgnoreDelay \<longrightarrow>
      resync h cfg now s = s\<lparr>mLastResyncTime := now\<rparr>) \<and>
   (now - mLastResyncTime s > kIgnoreDelay \<longrightarrow>
      resync h cfg now s =
        resyncToHardwareVsync False (getVsyncPeriod (getCurrentRefreshRate cfg))
          (force_resync_default h) (s\<lparr>mLastResyncTime := now\<rparr>)) \<and>
   resync h cfg (t + 700 * 1000000) (resync h cfg t s) =
     (resync h cfg t s)\<lparr>mLastResyncTime := t + 700 * 1000000\<rparr> \<and>
   resync h cfg (t + 800 * 1000000) (resync h cfg (t + 700 * 1000000) (resync h cfg t s)) =
     (resync h cfg t s)\<lparr>mLastResyncTime := t + 800 * 1000000\<rparr>"
proof -
  let ?s1 = "resync h cfg t s"
  have second: "resync h cfg (t + 700 * 1000000) ?s1 = ?s1\<lparr>mLastResyncTime := t + 700 * 1000000\<rparr>"
    by (rule resync_within_delay) (simp add: resync_mLastResyncTime kIgnoreDelay_def)
  have third: "resync h cfg (t + 800 * 1000000) (?s1\<lparr>mLastResyncTime := t + 700 * 1000000\<rparr>) =
      ?s1\<lparr>mLastResyncTime := t + 800 * 1000000\<rparr>"
    by (simp add: resync_within_delay kIgnoreDelay_def)
  show ?thesis
    using second third by (simp add: resync_def Let_def)
qed

theorem resync_throttle_witness:
  "resync headers (fixedPolicy True rate60) 10700000000
     (freshScheduler\<lparr>mHWVsyncAvailable := True, mLastResyncTime := 10000000000\<rparr>) =
     freshScheduler\<lparr>mHWVsyncAvailable := True, mLastResyncTime := 10700000000\<rparr> \<and>
   calls (resync headers (fixedPolicy True rate60) 10751000000
     (freshScheduler\<lparr>mHWVsyncAvailable := True, mLastResyncTime := 10000000000\<rparr>)) =
     [StartPeriodTransition 16666667, ResetModel, SetVsyncEnabled True]"
  using resync_throttle [of 10700000000
      "freshScheduler\<lparr>mHWVsyncAvailable := True, mLastResyncTime := 10000000000\<rparr>"
      headers "fixedPolicy True rate60"]
    resync_throttle [of 10751000000
      "freshScheduler\<lparr>mHWVsyncAvailable := True, mLastResyncTime := 10000000000\<rparr>"
      headers "fixedPolicy True rate60"]
  by (simp add: kIgnoreDelay_def resyncToHardwareVsync_def setVsyncPeriod_def call_def Let_def
      fixedPolicy_def headers_def rate60_def freshScheduler_def)

text \<open>The scenario as it was stated fails. Hardware vsync is available and the clock
  reads 10 s at the first call (the last resync time being 0, the first call resyncs):
  after the calls at 10 s, 10.7 s and 10.8 s the calls made are those of the first
  \<^verbatim>\<open>resync()\<close> alone, while a resync at the third call would have started one more
  period transition.\<close>

theorem resync_third_call_counterexample:
  "calls (resync headers (fixedPolicy True rate60) 10000000000
            (freshScheduler\<lparr>mHWVsyncAvailable := True\<rparr>)) =
     [StartPeriodTransition 16666667, ResetModel, SetVsyncEnabled True] \<and>
   calls (resync headers (fixedPolicy True rate60) 10800000000
           (resync headers (fixedPolicy True rate60) 10700000000
             (resync headers (fixedPolicy True rate60) 10000000000
               (freshScheduler\<lparr>mHWVsyncAvailable := True\<rparr>)))) =
     [StartPeriodTransition 16666667, ResetModel, SetVsyncEnabled True] \<and>
   calls (resyncToHardwareVsync False 16666667 False
           (resync headers (fixedPolicy True rate60) 10700000000
             (resync headers (fixedPolicy True rate60) 10000000000
               (freshScheduler\<lparr>mHWVsyncAvailable := True\<rparr>)))) =
     [StartPeriodTransition 16666667, ResetModel, SetVsyncEnabled True,
      StartPeriodTransition 16666667]"
  by (simp add: resync_def resyncToHardwareVsync_def setVsyncPeriod_def call_def Let_def
      kIgnoreDelay_def fixedPolicy_def headers_def rate60_def freshScheduler_def)

section \<open>Hardware vsync: a period that is not positive\<close>

text \<open>
  Claim C8, as amended. \<^verbatim>\<open>resyncToHardwareVsync(makeAvailable, period, force)\<close> with
  \<open>period \<le> 0\<close> starts no period transition and calls neither the tracker nor
  \<^verbatim>\<open>setVsyncEnabled\<close>; it leaves the scheduler as it was, except that hardware vsync is
  marked available when \<^verbatim>\<open>makeAvailable\<close> is true.
\<close>

theorem resyncToHardwareVsync_invalid_period:
  "period \<le> 0 \<Longrightarrow>
   resyncToHardwareVsync makeAvailable period force_resync s =
     (if makeAvailable then s\<lparr>mHWVsyncAvailable := True\<rparr> else s) \<and>
   calls (resyncToHardwareVsync makeAvailable period force_resync s) = calls s \<and>
   mPrimaryHWVsyncEnabled (resyncToHardwareVsync makeAvailable period force_resync s) =
     mPrimaryHWVsyncEnabled s"
  by (simp add: resyncToHardwareVsync_def)

theorem resyncToHardwareVsync_invalid_period_witness:
  "resyncToHardwareVsync False 0 True (freshScheduler\<lparr>mHWVsyncAvailable := True\<rparr>) =
     freshScheduler\<lparr>mHWVsyncAvailable := True\<rparr> \<and>
   calls (resyncToHardwareVsync True (- 5) True freshScheduler) = []"
  using resyncToHardwareVsync_invalid_period
      [of 0 False True "freshScheduler\<lparr>mHWVsyncAvailable := True\<rparr>"]
    resyncToHardwareVsync_invalid_period [of "- 5" True True freshScheduler]
  by (simp add: freshScheduler_def)

text \<open>The claim as it was stated fails: with \<^verbatim>\<open>makeAvailable\<close> true and a period of 0,
  the call changes \<^verbatim>\<open>mHWVsyncAvailable\<close> from false to true.\<close>

theorem resyncToHardwareVsync_invalid_period_counterexample:
  "mHWVsyncAvailable freshScheduler = False \<and>
   mHWVsyncAvailable (resyncToHardwareVsync True 0 False freshScheduler) = True"
  by (simp add: resyncToHardwareVsync_def freshScheduler_def)

section \<open>Hardware vsync: unavailable until made available\<close>

lemmas hwVsync_defs =
  enableHardwareVsync_def disableHardwareVsync_def resyncToHardwareVsync_def setVsyncPeriod_def
  resync_def resyncAndRefresh_def addResyncSample_def addPresentFence_def
  kernelIdleTimerCallback_def setIdleState_def call_def

lemma resync_mDisplayIdle: "mDisplayIdle (resync h cfg now s) = mDisplayIdle s"
  by (simp add: hwVsync_defs Let_def split: option.splits)

lemma hwVsyncCall_keeps_unavailable:
  assumes "\<not> passesMakeAvailable h cfg c s" "\<not> mHWVsyncAvailable s"
  shows "\<not> mHWVsyncAvailable (hwVsyncCall h cfg c s)"
proof (cases c)
  case (ResyncAndRefresh now)
  with assms have "\<not> mDisplayIdle (resync h cfg now s)" by simp
  moreover have "\<not> mHWVsyncAvailable (resync h cfg now s)"
    using assms(2) by (simp add: hwVsync_defs Let_def)
  ultimately show ?thesis
    using ResyncAndRefresh by (simp add: resyncAndRefresh_def Let_def)
next
  case (KernelIdleTimerCallback state)
  with assms show ?thesis by (cases state) (auto simp: hwVsync_defs Let_def)
qed (use assms in \<open>simp_all add: hwVsync_defs Let_def split_def\<close>)

lemma hwVsyncCall_keeps_disabled:
  assumes "\<not> passesMakeAvailable h cfg c s" "\<not> mHWVsyncAvailable s" "\<not> mPrimaryHWVsyncEnabled s"
  shows "\<not> mPrimaryHWVsyncEnabled (hwVsyncCall h cfg c s)"
proof (cases c)
  case (ResyncAndRefresh now)
  with assms have "\<not> mDisplayIdle (resync h cfg now s)" by simp
  moreover have "\<not> mPrimaryHWVsyncEnabled (resync h cfg now s)"
    using assms(2,3) by (simp add: hwVsync_defs Let_def)
  ultimately show ?thesis
    using ResyncAndRefresh by (simp add: resyncAndRefresh_def Let_def)
next
  case (KernelIdleTimerCallback state)
  with assms show ?thesis by (cases state) (auto simp: hwVsync_defs Let_def)
qed (use assms in \<open>simp_all add: hwVsync_defs Let_def split_def\<close>)

lemma hwVsyncCall_makes_available:
  assumes "passesMakeAvailable h cfg c s"
  shows "mHWVsyncAvailable (hwVsyncCall h cfg c s)"
proof (cases c)
  case (ResyncAndRefresh now)
  with assms have "mDisplayIdle (resync h cfg now s)" by simp
  then show ?thesis
    using ResyncAndRefresh
    by (simp add: resyncAndRefresh_def resyncToHardwareVsync_def setVsyncPeriod_def call_def Let_def)
next
  case (KernelIdleTimerCallback state)
  with assms show ?thesis by (simp add: hwVsync_defs Let_def)
qed (use assms in \<open>simp_all add: hwVsync_defs Let_def split_def\<close>)

lemma hwVsyncCalls_keep_unavailable:
  "noneMakesAvailable h cfg cs s \<Longrightarrow>
   \<not> mHWVsyncAvailable s \<Longrightarrow> \<not> mPrimaryHWVsyncEnabled s \<Longrightarrow>
   \<not> mHWVsyncAvailable (hwVsyncCalls h cfg cs s) \<and>
   \<not> mPrimaryHWVsyncEnabled (hwVsyncCalls h cfg cs s)"
proof (induction cs arbitrary: s)
  case Nil
  then show ?case by simp
next
  case (Cons c cs)
  from Cons.prems have quiet: "\<not> passesMakeAvailable h cfg c s"
    and rest: "noneMakesAvailable h cfg cs (hwVsyncCall h cfg c s)"
    by simp_all
  from quiet Cons.prems
  have "\<not> mHWVsyncAvailable (hwVsyncCall h cfg c s)"
    "\<not> mPrimaryHWVsyncEnabled (hwVsyncCall h cfg c s)"
    by (simp_all add: hwVsyncCall_keeps_unavailable hwVsyncCall_keeps_disabled)
  with Cons.IH [OF rest] show ?case by simp
qed

text \<open>
  Claim C6. After \<^verbatim>\<open>disableHardwareVsync(true)\<close>, and after any further sequence of
  calls none of which, in the state it is made in, reaches \<^verbatim>\<open>resyncToHardwareVsync\<close>
  with \<^verbatim>\<open>makeAvailable = true\<close>, hardware vsync is unavailable and not enabled, and
  \<^verbatim>\<open>enableHardwareVsync()\<close> leaves the scheduler as it is: it resets no tracker model,
  does not call \<^verbatim>\<open>setVsyncEnabled(true)\<close> and does not set the enabled flag. The
  sequence may hold \<^verbatim>\<open>resyncAndRefresh\<close> while the display is not marked idle and
  \<^verbatim>\<open>kernelIdleTimerCallback\<close> resets while the rate is not above the threshold. From an
  unavailable state, a call makes hardware vsync available exactly when it reaches
  \<^verbatim>\<open>resyncToHardwareVsync\<close> with \<^verbatim>\<open>makeAvailable = true\<close>, and that function with
  that argument always does. In any state, \<^verbatim>\<open>enableHardwareVsync()\<close> changes something
  exactly when hardware vsync is not enabled and is available.
\<close>

theorem enableHardwareVsync_noop_while_unavailable:
  "noneMakesAvailable h cfg cs (disableHardwareVsync True s) \<Longrightarrow>
   \<not> mHWVsyncAvailable (hwVsyncCalls h cfg cs (disableHardwareVsync True s)) \<and>
   \<not> mPrimaryHWVsyncEnabled (hwVsyncCalls h cfg cs (disableHardwareVsync True s)) \<and>
   enableHardwareVsync (hwVsyncCalls h cfg cs (disableHardwareVsync True s)) =
     hwVsyncCalls h cfg cs (disableHardwareVsync True s) \<and>
   (\<not> mHWVsyncAvailable s \<longrightarrow>
      mHWVsyncAvailable (hwVsyncCall h cfg c s) = passesMakeAvailable h cfg c s) \<and>
   (enableHardwareVsync s \<noteq> s) = (\<not> mPrimaryHWVsyncEnabled s \<and> mHWVsyncAvailable s) \<and>
   mHWVsyncAvailable (resyncToHardwareVsync True period force_resync s)"
proof -
  assume cs: "noneMakesAvailable h cfg cs (disableHardwareVsync True s)"
  let ?s0 = "disableHardwareVsync True s"
  have "\<not> mHWVsyncAvailable ?s0" "\<not> mPrimaryHWVsyncEnabled ?s0"
    by (simp_all add: disableHardwareVsync_def call_def)
  with hwVsyncCalls_keep_unavailable [OF cs]
  have inv: "\<not> mHWVsyncAvailable (hwVsyncCalls h cfg cs ?s0)"
    "\<not> mPrimaryHWVsyncEnabled (hwVsyncCalls h cfg cs ?s0)"
    by simp_all
  then have noop: "enableHardwareVsync (hwVsyncCalls h cfg cs ?s0) = hwVsyncCalls h cfg cs ?s0"
    by (simp add: enableHardwareVsync_def)
  have exact: "\<not> mHWVsyncAvailable s \<longrightarrow>
      mHWVsyncAvailable (hwVsyncCall h cfg c s) = passesMakeAvailable h cfg c s"
    using hwVsyncCall_keeps_unavailable [of h cfg c s] hwVsyncCall_makes_available [of h cfg c s]
    by blast
  have acts: "(enableHardwareVsync s \<noteq> s) = (\<not> mPrimaryHWVsyncEnabled s \<and> mHWVsyncAvailable s)"
  proof (cases "\<not> mPrimaryHWVsyncEnabled s \<and> mHWVsyncAvailable s")
    case True
    then have "mPrimaryHWVsyncEnabled (enableHardwareVsync s)"
      by (simp add: enableHardwareVsync_def)
    with True show ?thesis by auto
  next
    case False
    then show ?thesis by (auto simp: enableHardwareVsync_def)
  qed
  have flipped: "mHWVsyncAvailable (resyncToHardwareVsync True period force_resync s)"
    by (simp add: resyncToHardwareVsync_def setVsyncPeriod_def call_def Let_def)
  from inv noop exact acts flipped show ?thesis by simp
qed

theorem enableHardwareVsync_noop_while_unavailable_witness:
  "calls (hwVsyncCalls headers (fixedPolicy True rate120)
     [EnableHardwareVsync, ResyncAndRefresh 10000000000, AddPresentFenceCall True,
      KernelIdleTimerCallback Reset, KernelIdleTimerCallback Expired,
      ResyncToHardwareVsync False 8333333 True]
     (disableHardwareVsync True
        (freshScheduler\<lparr>mHWVsyncAvailable := True, mPrimaryHWVsyncEnabled := True\<rparr>))) =
     [SetVsyncEnabled False, AddPresentFence, KernelTimerChanged False, KernelTimerChanged True] \<and>
   enableHardwareVsync (hwVsyncCalls headers (fixedPolicy True rate120)
     [EnableHardwareVsync, ResyncAndRefresh 10000000000, AddPresentFenceCall True,
      KernelIdleTimerCallback Reset, KernelIdleTimerCallback Expired,
      ResyncToHardwareVsync False 8333333 True]
     (disableHardwareVsync True
        (freshScheduler\<lparr>mHWVsyncAvailable := True, mPrimaryHWVsyncEnabled := True\<rparr>))) =
   hwVsyncCalls headers (fixedPolicy True rate120)
     [EnableHardwareVsync, ResyncAndRefresh 10000000000, AddPresentFenceCall True,
      KernelIdleTimerCallback Reset, KernelIdleTimerCallback Expired,
      ResyncToHardwareVsync False 8333333 True]
     (disableHardwareVsync True
        (freshScheduler\<lparr>mHWVsyncAvailable := True, mPrimaryHWVsyncEnabled := True\<rparr>)) \<and>
   mHWVsyncAvailable (resyncAndRefresh headers (fixedPolicy True rate120) 10000000000
     (setIdleState freshScheduler)) \<and>
   \<not> mHWVsyncAvailable (resyncAndRefresh headers (fixedPolicy True rate120) 10000000000
     freshScheduler)"
  using enableHardwareVsync_noop_while_unavailable
    [where cs = "[EnableHardwareVsync, ResyncAndRefresh 10000000000, AddPresentFenceCall True,
      KernelIdleTimerCallback Reset, KernelIdleTimerCallback Expired,
      ResyncToHardwareVsync False 8333333 True]"
     and h = headers and cfg = "fixedPolicy True rate120"
     and s = "freshScheduler\<lparr>mHWVsyncAvailable := True, mPrimaryHWVsyncEnabled := True\<rparr>"
     and c = EnableHardwareVsync]
    enableHardwareVsync_noop_while_unavailable
    [where cs = "[]" and h = headers and cfg = "fixedPolicy True rate120"
     and s = "setIdleState freshScheduler" and c = "ResyncAndRefresh 10000000000"]
    enableHardwareVsync_noop_while_unavailable
    [where cs = "[]" and h = headers and cfg = "fixedPolicy True rate120"
     and s = freshScheduler and c = "ResyncAndRefresh 10000000000"]
  by (simp add: hwVsync_defs Let_def kIgnoreDelay_def fixedPolicy_def headers_def rate120_def
      rate60_def freshScheduler_def FPS_THRESHOLD_FOR_KERNEL_TIMER_def)

section \<open>Vsync injection\<close>

text \<open>
  Claim C7, as amended. A second \<^verbatim>\<open>enableVSyncInjection(true)\<close> in a row leaves the
  scheduler as the first call left it (no new \<^verbatim>\<open>EventThread\<close>, no new connection, the
  injection state unchanged), and it returns a default-constructed handle: the handle
  the first call returned only if that one was the default-constructed handle too.
\<close>

theorem enableVSyncInjection_twice:
  "enableVSyncInjection h True (snd (enableVSyncInjection h True s)) =
     (ConnectionHandle (INVALID_ID h), snd (enableVSyncInjection h True s)) \<and>
   (fst (enableVSyncInjection h True (snd (enableVSyncInjection h True s))) =
      fst (enableVSyncInjection h True s)) =
     (handleId (fst (enableVSyncInjection h True s)) = INVALID_ID h)"
proof -
  have second: "enableVSyncInjection h True (snd (enableVSyncInjection h True s)) =
      (ConnectionHandle (INVALID_ID h), snd (enableVSyncInjection h True s))"
    by (simp add: enableVSyncInjection_def Let_def split_def)
  show ?thesis
    unfolding second by (cases "fst (enableVSyncInjection h True s)") auto
qed

text \<open>The claim as it was stated fails: on a scheduler that has no injection
  connection yet, the first call returns the handle of the connection it creates (id 0)
  and the second returns the default-constructed handle.\<close>

theorem enableVSyncInjection_twice_counterexample:
  "fst (enableVSyncInjection headers True freshScheduler) = ConnectionHandle 0 \<and>
   fst (enableVSyncInjection headers True (snd (enableVSyncInjection headers True freshScheduler))) =
     ConnectionHandle (2 ^ 64 - 1)"
  by (simp add: enableVSyncInjection_def createConnectionWithThread_def Let_def split_def
      headers_def freshScheduler_def createConnectionInternal_def)

section \<open>Choosing the display mode: what a run reports\<close>

lemma calculateRefreshRateModeId_cong:
  "selectionInputs s = selectionInputs s' \<Longrightarrow>
   calculateRefreshRateModeId cfg s = calculateRefreshRateModeId cfg s'"
  by (auto simp: calculateRefreshRateModeId_def selectionInputs_def)

lemma updateFrameRateOverrides_state:
  "\<exists>ovr. snd (updateFrameRateOverrides h cfg sig fps s) = s\<lparr>mFrameRateOverridesByContent := ovr\<rparr>"
proof (cases "snd (updateFrameRateOverrides h cfg sig fps s) = s")
  case True
  then have "snd (updateFrameRateOverrides h cfg sig fps s) =
      s\<lparr>mFrameRateOverridesByContent := mFrameRateOverridesByContent s\<rparr>" by simp
  then show ?thesis ..
next
  case False
  then have "snd (updateFrameRateOverrides h cfg sig fps s) =
      s\<lparr>mFrameRateOverridesByContent :=
          getFrameRateOverrides cfg (contentRequirements (mFeatures s)) fps (touch sig)\<rparr>"
    by (simp add: updateFrameRateOverrides_def Let_def split: if_splits)
  then show ?thesis ..
qed

lemma dispatchCachedReportedMode_calls:
  "modeId (mFeatures s) = Some m \<Longrightarrow>
   calls (dispatchCachedReportedMode cfg s) = calls s @
     (case cachedModeChangedParams (mFeatures s) of
        None \<Rightarrow> []
      | Some p \<Rightarrow>
          if getModeId (getCurrentRefreshRate cfg) = m \<and>
             (mcpModeId p \<noteq> m \<or>
              mcpVsyncPeriod p \<noteq> getVsyncPeriod (getRefreshRateFromModeId cfg m)) \<and>
             mConnections s (mcpHandle p) \<noteq> None
          then [OnModeChanged (mcpHandle p) (mcpDisplayId p) m
                  (getVsyncPeriod (getRefreshRateFromModeId cfg m))]
          else [])"
  by (auto simp: dispatchCachedReportedMode_def onNonPrimaryDisplayModeChanged_def call_def Let_def
      split: option.splits)

lemma dispatchCachedReportedMode_frame:
  "selectionInputs (dispatchCachedReportedMode cfg s) = selectionInputs s \<and>
   modeId (mFeatures (dispatchCachedReportedMode cfg s)) = modeId (mFeatures s)"
  by (simp add: dispatchCachedReportedMode_def onNonPrimaryDisplayModeChanged_def call_def Let_def
      selectionInputs_def split: option.splits)


lemma adoptModeId_same:
  "modeId (mFeatures s) = Some newModeId \<Longrightarrow>
   adoptModeId cfg g newModeId sig s =
     Inr (if \<not> idle sig then dispatchCachedReportedMode cfg s else s, False)"
  by (simp add: adoptModeId_def)

lemma adoptModeId_clamped:
  "modeId (mFeatures s) \<noteq> Some newModeId \<Longrightarrow>
   aboveThermalFps s (getRefreshRateFromModeId cfg newModeId) \<Longrightarrow>
   g (mThermalFps s) = Some m \<Longrightarrow>
   adoptModeId cfg g newModeId sig s = Inr (s\<lparr>mFeatures := (mFeatures s)\<lparr>modeId := Some m\<rparr>\<rparr>, True)"
  by (simp add: adoptModeId_def Let_def aboveThermalFps_def)

lemma adoptModeId_plain:
  "modeId (mFeatures s) \<noteq> Some newModeId \<Longrightarrow>
   \<not> aboveThermalFps s (getRefreshRateFromModeId cfg newModeId) \<Longrightarrow>
   adoptModeId cfg g newModeId sig s =
     Inr (s\<lparr>mFeatures := (mFeatures s)\<lparr>modeId := Some newModeId\<rparr>\<rparr>, True)"
  by (auto simp: adoptModeId_def Let_def aboveThermalFps_def)

lemma reportMode_unchanged:
  "reportMode cfg g newModeId sig False changed s =
     Inr (if changed then call TriggerOnFrameRateOverridesChanged s else s)"
  by (simp add: reportMode_def)

lemma reportMode_clamped:
  "aboveThermalFps s (getRefreshRateFromModeId cfg newModeId) \<Longrightarrow>
   g (mThermalFps s) = Some m \<Longrightarrow>
   reportMode cfg g newModeId sig True changed s =
     Inr (let s1 = call (ChangeRefreshRate (getRefreshRateFromModeId cfg m)
                     (if idle sig then ModeEventNone else ModeEventChanged)) s
          in if changed then call TriggerOnFrameRateOverridesChanged s1 else s1)"
  by (simp add: reportMode_def Let_def)

lemma reportMode_plain:
  "\<not> aboveThermalFps s (getRefreshRateFromModeId cfg newModeId) \<Longrightarrow>
   reportMode cfg g newModeId sig True changed s =
     Inr (let s1 = call (ChangeRefreshRate (getRefreshRateFromModeId cfg newModeId)
                     (if idle sig then ModeEventNone else ModeEventChanged)) s
          in if changed then call TriggerOnFrameRateOverridesChanged s1 else s1)"
  by (simp add: reportMode_def Let_def)

lemma select_same_mode:
  assumes same: "modeId (mFeatures s1) = Some newModeId"
  shows "\<exists>s'. (case adoptModeId cfg g newModeId sig
                    (snd (updateFrameRateOverrides h cfg sig fps s1)) of
                 Inl e \<Rightarrow> Inl e
               | Inr (s3, changed) \<Rightarrow>
                   reportMode cfg g newModeId sig changed
                     (fst (updateFrameRateOverrides h cfg sig fps s1)) s3) = Inr s' \<and>
          filter isChangeRefreshRate (calls s') = filter isChangeRefreshRate (calls s1) \<and>
          filter isOnModeChanged (calls s') = filter isOnModeChanged (calls s1) @
            (case cachedModeChangedParams (mFeatures s1) of
               None \<Rightarrow> []
             | Some p \<Rightarrow>
                 if \<not> idle sig \<and> getModeId (getCurrentRefreshRate cfg) = newModeId \<and>
                    (mcpModeId p \<noteq> newModeId \<or>
                     mcpVsyncPeriod p \<noteq> getVsyncPeriod (getRefreshRateFromModeId cfg newModeId)) \<and>
                    mConnections s1 (mcpHandle p) \<noteq> None
                 then [OnModeChanged (mcpHandle p) (mcpDisplayId p) newModeId
                         (getVsyncPeriod (getRefreshRateFromModeId cfg newModeId))]
                 else []) \<and>
          modeId (mFeatures s') = Some newModeId \<and>
          selectionInputs s' = selectionInputs s1"
proof -
  obtain ovr where upd: "snd (updateFrameRateOverrides h cfg sig fps s1) =
      s1\<lparr>mFrameRateOverridesByContent := ovr\<rparr>"
    using updateFrameRateOverrides_state by blast
  let ?s2 = "s1\<lparr>mFrameRateOverridesByContent := ovr\<rparr>"
  let ?s3 = "if \<not> idle sig then dispatchCachedReportedMode cfg ?s2 else ?s2"
  let ?ch = "fst (updateFrameRateOverrides h cfg sig fps s1)"
  let ?s' = "if ?ch then call TriggerOnFrameRateOverridesChanged ?s3 else ?s3"
  have same2: "modeId (mFeatures ?s2) = Some newModeId" using same by simp
  have run: "(case adoptModeId cfg g newModeId sig
                    (snd (updateFrameRateOverrides h cfg sig fps s1)) of
                 Inl e \<Rightarrow> Inl e
               | Inr (s3, changed) \<Rightarrow> reportMode cfg g newModeId sig changed ?ch s3) = Inr ?s'"
    unfolding upd by (simp add: adoptModeId_same [OF same2] reportMode_unchanged)
  have sent: "calls (dispatchCachedReportedMode cfg ?s2) = calls s1 @
      (case cachedModeChangedParams (mFeatures s1) of
         None \<Rightarrow> []
       | Some p \<Rightarrow>
           if getModeId (getCurrentRefreshRate cfg) = newModeId \<and>
              (mcpModeId p \<noteq> newModeId \<or>
               mcpVsyncPeriod p \<noteq> getVsyncPeriod (getRefreshRateFromModeId cfg newModeId)) \<and>
              mConnections s1 (mcpHandle p) \<noteq> None
           then [OnModeChanged (mcpHandle p) (mcpDisplayId p) newModeId
                   (getVsyncPeriod (getRefreshRateFromModeId cfg newModeId))]
           else [])"
    using dispatchCachedReportedMode_calls [OF same2, of cfg]
    by (simp cong: option.case_cong)
  have kept: "selectionInputs (dispatchCachedReportedMode cfg ?s2) = selectionInputs s1"
    "modeId (mFeatures (dispatchCachedReportedMode cfg ?s2)) = Some newModeId"
    using dispatchCachedReportedMode_frame [of cfg ?s2] same
    by (simp_all add: selectionInputs_def)
  have "filter isChangeRefreshRate (calls ?s') = filter isChangeRefreshRate (calls s1)"
    by (cases "idle sig"; cases ?ch) (simp_all add: sent call_def split: option.splits)
  moreover have "filter isOnModeChanged (calls ?s') = filter isOnModeChanged (calls s1) @
            (case cachedModeChangedParams (mFeatures s1) of
               None \<Rightarrow> []
             | Some p \<Rightarrow>
                 if \<not> idle sig \<and> getModeId (getCurrentRefreshRate cfg) = newModeId \<and>
                    (mcpModeId p \<noteq> newModeId \<or>
                     mcpVsyncPeriod p \<noteq> getVsyncPeriod (getRefreshRateFromModeId cfg newModeId)) \<and>
                    mConnections s1 (mcpHandle p) \<noteq> None
                 then [OnModeChanged (mcpHandle p) (mcpDisplayId p) newModeId
                         (getVsyncPeriod (getRefreshRateFromModeId cfg newModeId))]
                 else [])"
    by (cases "idle sig"; cases ?ch) (simp_all add: sent call_def split: option.splits)
  moreover have "modeId (mFeatures ?s') = Some newModeId"
    using kept(2) same by (cases "idle sig"; cases ?ch) (simp_all add: call_def)
  moreover have "selectionInputs ?s' = selectionInputs s1"
    using kept(1) by (cases "idle sig"; cases ?ch) (simp_all add: call_def selectionInputs_def)
  ultimately show ?thesis using run by blast
qed


lemma select_new_mode:
  assumes other: "modeId (mFeatures s1) \<noteq> Some newModeId"
    and adopted: "(if aboveThermalFps s1 (getRefreshRateFromModeId cfg newModeId)
                   then g (mThermalFps s1) else Some newModeId) = Some m"
  shows "\<exists>s'. (case adoptModeId cfg g newModeId sig
                    (snd (updateFrameRateOverrides h cfg sig fps s1)) of
                 Inl e \<Rightarrow> Inl e
               | Inr (s3, changed) \<Rightarrow>
                   reportMode cfg g newModeId sig changed
                     (fst (updateFrameRateOverrides h cfg sig fps s1)) s3) = Inr s' \<and>
          filter isChangeRefreshRate (calls s') = filter isChangeRefreshRate (calls s1) @
            [ChangeRefreshRate (getRefreshRateFromModeId cfg m)
               (if idle sig then ModeEventNone else ModeEventChanged)] \<and>
          modeId (mFeatures s') = Some m \<and>
          selectionInputs s' = selectionInputs s1"
proof -
  obtain ovr where upd: "snd (updateFrameRateOverrides h cfg sig fps s1) =
      s1\<lparr>mFrameRateOverridesByContent := ovr\<rparr>"
    using updateFrameRateOverrides_state by blast
  let ?s2 = "s1\<lparr>mFrameRateOverridesByContent := ovr\<rparr>"
  let ?s3 = "?s2\<lparr>mFeatures := (mFeatures ?s2)\<lparr>modeId := Some m\<rparr>\<rparr>"
  let ?s4 = "call (ChangeRefreshRate (getRefreshRateFromModeId cfg m)
                (if idle sig then ModeEventNone else ModeEventChanged)) ?s3"
  let ?ch = "fst (updateFrameRateOverrides h cfg sig fps s1)"
  let ?s' = "if ?ch then call TriggerOnFrameRateOverridesChanged ?s4 else ?s4"
  have other2: "modeId (mFeatures ?s2) \<noteq> Some newModeId" using other by simp
  have run: "(case adoptModeId cfg g newModeId sig
                    (snd (updateFrameRateOverrides h cfg sig fps s1)) of
                 Inl e \<Rightarrow> Inl e
               | Inr (s3, changed) \<Rightarrow> reportMode cfg g newModeId sig changed ?ch s3) = Inr ?s'"
  proof (cases "aboveThermalFps s1 (getRefreshRateFromModeId cfg newModeId)")
    case True
    with adopted have host: "g (mThermalFps ?s2) = Some m" "g (mThermalFps ?s3) = Some m"
      by simp_all
    from True have "aboveThermalFps ?s2 (getRefreshRateFromModeId cfg newModeId)"
      "aboveThermalFps ?s3 (getRefreshRateFromModeId cfg newModeId)"
      by (simp_all add: aboveThermalFps_def)
    then show ?thesis
      unfolding upd
      using other2 host adoptModeId_clamped [of ?s2 newModeId cfg g m sig]
        reportMode_clamped [of ?s3 cfg newModeId g m sig ?ch]
      by (simp add: Let_def)
  next
    case False
    with adopted have [simp]: "m = newModeId" by simp
    from False have "\<not> aboveThermalFps ?s2 (getRefreshRateFromModeId cfg newModeId)"
      "\<not> aboveThermalFps ?s3 (getRefreshRateFromModeId cfg newModeId)"
      by (simp_all add: aboveThermalFps_def)
    then show ?thesis
      unfolding upd
      using other2 adoptModeId_plain [of ?s2 newModeId cfg g sig]
        reportMode_plain [of ?s3 cfg newModeId g sig ?ch]
      by (simp add: Let_def)
  qed
  have "filter isChangeRefreshRate (calls ?s') = filter isChangeRefreshRate (calls s1) @
            [ChangeRefreshRate (getRefreshRateFromModeId cfg m)
               (if idle sig then ModeEventNone else ModeEventChanged)]"
    by (cases ?ch) (simp_all add: call_def)
  moreover have "modeId (mFeatures ?s') = Some m"
    by (cases ?ch) (simp_all add: call_def)
  moreover have "selectionInputs ?s' = selectionInputs s1"
    by (cases ?ch) (simp_all add: call_def selectionInputs_def)
  ultimately show ?thesis using run by blast
qed

lemma chooseRefreshRateForContent_unfold:
  assumes "canSwitch cfg"
    and "calculateRefreshRateModeId cfg
           (s\<lparr>mFeatures := (mFeatures s)\<lparr>contentRequirements := summary\<rparr>\<rparr>) = (newModeId, sig)"
  shows "chooseRefreshRateForContent h cfg g summary s =
    (case adoptModeId cfg g newModeId sig
            (snd (updateFrameRateOverrides h cfg sig
                    (getFps (getRefreshRateFromModeId cfg newModeId))
                    (s\<lparr>mFeatures := (mFeatures s)\<lparr>contentRequirements := summary\<rparr>\<rparr>))) of
       Inl e \<Rightarrow> Inl e
     | Inr (s3, changed) \<Rightarrow>
         reportMode cfg g newModeId sig changed
           (fst (updateFrameRateOverrides h cfg sig
                   (getFps (getRefreshRateFromModeId cfg newModeId))
                   (s\<lparr>mFeatures := (mFeatures s)\<lparr>contentRequirements := summary\<rparr>\<rparr>))) s3)"
  using assms
  by (simp add: chooseRefreshRateForContent_def Let_def split_def cong: sum.case_cong)

lemma handleTimerStateChanged_unfold:
  assumes "currentState (mFeatures s) \<noteq> newState"
    and "calculateRefreshRateModeId cfg
           (s\<lparr>mFeatures := setCurrentState newState (mFeatures s)\<rparr>) = (newModeId, sig)"
  shows "handleTimerStateChanged h cfg g currentState setCurrentState newState s =
    (case (case adoptModeId cfg g newModeId sig
            (snd (updateFrameRateOverrides h cfg sig
                    (getFps (getRefreshRateFromModeId cfg newModeId))
                    (s\<lparr>mFeatures := setCurrentState newState (mFeatures s)\<rparr>))) of
       Inl e \<Rightarrow> Inl e
     | Inr (s3, changed) \<Rightarrow>
         reportMode cfg g newModeId sig changed
           (fst (updateFrameRateOverrides h cfg sig
                   (getFps (getRefreshRateFromModeId cfg newModeId))
                   (s\<lparr>mFeatures := setCurrentState newState (mFeatures s)\<rparr>))) s3) of
       Inl e \<Rightarrow> Inl e
     | Inr s4 \<Rightarrow> Inr (touch sig, s4))"
  using assms
  by (simp add: handleTimerStateChanged_def Let_def split_def split: sum.splits
      cong: sum.case_cong)


lemma select_same_mode_replay:
  assumes same: "modeId (mFeatures s1) = Some newModeId"
  shows "\<exists>s'. (case adoptModeId cfg g newModeId sig
                    (snd (updateFrameRateOverrides h cfg sig fps s1)) of
                 Inl e \<Rightarrow> Inl e
               | Inr (s3, changed) \<Rightarrow>
                   reportMode cfg g newModeId sig changed
                     (fst (updateFrameRateOverrides h cfg sig fps s1)) s3) = Inr s' \<and>
          filter isChangeRefreshRate (calls s') = filter isChangeRefreshRate (calls s1) \<and>
          filter isOnModeChanged (calls s') = filter isOnModeChanged (calls s1) @
            (if idle sig then [] else cachedModeReplay cfg s1 newModeId) \<and>
          modeId (mFeatures s') = Some newModeId \<and>
          selectionInputs s' = selectionInputs s1"
  using select_same_mode [OF same, of cfg g sig h fps]
  by (cases "idle sig") (auto simp: cachedModeReplay_def split: option.splits)

lemma chooseRefreshRateForContent_same_mode:
  assumes "canSwitch cfg"
    and "calculateRefreshRateModeId cfg
           (s\<lparr>mFeatures := (mFeatures s)\<lparr>contentRequirements := summary\<rparr>\<rparr>) = (newModeId, sig)"
    and "modeId (mFeatures s) = Some newModeId"
  shows "\<exists>s'. chooseRefreshRateForContent h cfg g summary s = Inr s' \<and>
          filter isChangeRefreshRate (calls s') = filter isChangeRefreshRate (calls s) \<and>
          filter isOnModeChanged (calls s') = filter isOnModeChanged (calls s) @
            (if idle sig then [] else cachedModeReplay cfg s newModeId) \<and>
          modeId (mFeatures s') = Some newModeId \<and>
          selectionInputs s' =
            selectionInputs (s\<lparr>mFeatures := (mFeatures s)\<lparr>contentRequirements := summary\<rparr>\<rparr>)"
proof -
  let ?s1 = "s\<lparr>mFeatures := (mFeatures s)\<lparr>contentRequirements := summary\<rparr>\<rparr>"
  have same: "modeId (mFeatures ?s1) = Some newModeId" using assms(3) by simp
  have replay: "cachedModeReplay cfg ?s1 newModeId = cachedModeReplay cfg s newModeId"
    by (simp add: cachedModeReplay_def cong: option.case_cong)
  show ?thesis
    using select_same_mode_replay [OF same, of cfg g sig h "getFps (getRefreshRateFromModeId cfg newModeId)"]
    unfolding chooseRefreshRateForContent_unfold [OF assms(1,2)] replay
    by simp
qed

lemma chooseRefreshRateForContent_new_mode:
  assumes "canSwitch cfg"
    and "calculateRefreshRateModeId cfg
           (s\<lparr>mFeatures := (mFeatures s)\<lparr>contentRequirements := summary\<rparr>\<rparr>) = (newModeId, sig)"
    and "modeId (mFeatures s) \<noteq> Some newModeId"
    and "(if aboveThermalFps s (getRefreshRateFromModeId cfg newModeId)
          then g (mThermalFps s) else Some newModeId) = Some m"
  shows "\<exists>s'. chooseRefreshRateForContent h cfg g summary s = Inr s' \<and>
          filter isChangeRefreshRate (calls s') = filter isChangeRefreshRate (calls s) @
            [ChangeRefreshRate (getRefreshRateFromModeId cfg m)
               (if idle sig then ModeEventNone else ModeEventChanged)] \<and>
          modeId (mFeatures s') = Some m \<and>
          selectionInputs s' =
            selectionInputs (s\<lparr>mFeatures := (mFeatures s)\<lparr>contentRequirements := summary\<rparr>\<rparr>)"
proof -
  let ?s1 = "s\<lparr>mFeatures := (mFeatures s)\<lparr>contentRequirements := summary\<rparr>\<rparr>"
  have other: "modeId (mFeatures ?s1) \<noteq> Some newModeId" using assms(3) by simp
  have adopted: "(if aboveThermalFps ?s1 (getRefreshRateFromModeId cfg newModeId)
      then g (mThermalFps ?s1) else Some newModeId) = Some m"
    using assms(4) by (auto simp: aboveThermalFps_def split: if_splits)
  show ?thesis
    using select_new_mode [where g = g and sig = sig and h = h and
        fps = "getFps (getRefreshRateFromModeId cfg newModeId)", OF other adopted]
    unfolding chooseRefreshRateForContent_unfold [OF assms(1,2)]
    by simp
qed

lemma handleTimerStateChanged_same_mode:
  assumes "currentState (mFeatures s) \<noteq> newState"
    and "calculateRefreshRateModeId cfg
           (s\<lparr>mFeatures := setCurrentState newState (mFeatures s)\<rparr>) = (newModeId, sig)"
    and "modeId (setCurrentState newState (mFeatures s)) = Some newModeId"
  shows "\<exists>s'. handleTimerStateChanged h cfg g currentState setCurrentState newState s =
            Inr (touch sig, s') \<and>
          filter isChangeRefreshRate (calls s') = filter isChangeRefreshRate (calls s) \<and>
          filter isOnModeChanged (calls s') = filter isOnModeChanged (calls s) @
            (if idle sig then []
             else cachedModeReplay cfg (s\<lparr>mFeatures := setCurrentState newState (mFeatures s)\<rparr>)
                    newModeId)"
proof -
  let ?s1 = "s\<lparr>mFeatures := setCurrentState newState (mFeatures s)\<rparr>"
  have same: "modeId (mFeatures ?s1) = Some newModeId" using assms(3) by simp
  obtain s' where "(case adoptModeId cfg g newModeId sig
                    (snd (updateFrameRateOverrides h cfg sig
                       (getFps (getRefreshRateFromModeId cfg newModeId)) ?s1)) of
                 Inl e \<Rightarrow> Inl e
               | Inr (s3, changed) \<Rightarrow>
                   reportMode cfg g newModeId sig changed
                     (fst (updateFrameRateOverrides h cfg sig
                        (getFps (getRefreshRateFromModeId cfg newModeId)) ?s1)) s3) = Inr s'"
    and "filter isChangeRefreshRate (calls s') = filter isChangeRefreshRate (calls ?s1)"
    and "filter isOnModeChanged (calls s') = filter isOnModeChanged (calls ?s1) @
            (if idle sig then [] else cachedModeReplay cfg ?s1 newModeId)"
    using select_same_mode_replay [OF same, of cfg g sig h "getFps (getRefreshRateFromModeId cfg newModeId)"]
    by blast
  then show ?thesis
    unfolding handleTimerStateChanged_unfold
        [where currentState = currentState and setCurrentState = setCurrentState, OF assms(1,2)]
    by simp
qed

lemma handleTimerStateChanged_new_mode:
  assumes "currentState (mFeatures s) \<noteq> newState"
    and "calculateRefreshRateModeId cfg
           (s\<lparr>mFeatures := setCurrentState newState (mFeatures s)\<rparr>) = (newModeId, sig)"
    and "modeId (setCurrentState newState (mFeatures s)) \<noteq> Some newModeId"
    and "(if aboveThermalFps s (getRefreshRateFromModeId cfg newModeId)
          then g (mThermalFps s) else Some newModeId) = Some m"
  shows "\<exists>s'. handleTimerStateChanged h cfg g currentState setCurrentState newState s =
            Inr (touch sig, s') \<and>
          filter isChangeRefreshRate (calls s') = filter isChangeRefreshRate (calls s) @
            [ChangeRefreshRate (getRefreshRateFromModeId cfg m)
               (if idle sig then ModeEventNone else ModeEventChanged)] \<and>
          modeId (mFeatures s') = Some m"
proof -
  let ?s1 = "s\<lparr>mFeatures := setCurrentState newState (mFeatures s)\<rparr>"
  have other: "modeId (mFeatures ?s1) \<noteq> Some newModeId" using assms(3) by simp
  have adopted: "(if aboveThermalFps ?s1 (getRefreshRateFromModeId cfg newModeId)
      then g (mThermalFps ?s1) else Some newModeId) = Some m"
    using assms(4) by (auto simp: aboveThermalFps_def split: if_splits)
  obtain s' where "(case adoptModeId cfg g newModeId sig
                    (snd (updateFrameRateOverrides h cfg sig
                       (getFps (getRefreshRateFromModeId cfg newModeId)) ?s1)) of
                 Inl e \<Rightarrow> Inl e
               | Inr (s3, changed) \<Rightarrow>
                   reportMode cfg g newModeId sig changed
                     (fst (updateFrameRateOverrides h cfg sig
                        (getFps (getRefreshRateFromModeId cfg newModeId)) ?s1)) s3) = Inr s'"
    and "filter isChangeRefreshRate (calls s') = filter isChangeRefreshRate (calls ?s1) @
            [ChangeRefreshRate (getRefreshRateFromModeId cfg m)
               (if idle sig then ModeEventNone else ModeEventChanged)]"
    and "modeId (mFeatures s') = Some m"
    using select_new_mode [where g = g and sig = sig and h = h and
        fps = "getFps (getRefreshRateFromModeId cfg newModeId)", OF other adopted]
    by blast
  then show ?thesis
    unfolding handleTimerStateChanged_unfold
        [where currentState = currentState and setCurrentState = setCurrentState, OF assms(1,2)]
    by simp
qed

lemma chooseRefreshRateForContent_twice:
  assumes sw: "canSwitch cfg"
    and calc: "calculateRefreshRateModeId cfg
           (s\<lparr>mFeatures := (mFeatures s)\<lparr>contentRequirements := summary\<rparr>\<rparr>) = (newModeId, sig)"
    and cool: "\<not> aboveThermalFps s (getRefreshRateFromModeId cfg newModeId)"
  shows "\<exists>s' s''. chooseRefreshRateForContent h cfg g summary s = Inr s' \<and>
          chooseRefreshRateForContent h cfg g summary s' = Inr s'' \<and>
          filter isChangeRefreshRate (calls s'') = filter isChangeRefreshRate (calls s') \<and>
          length (filter isChangeRefreshRate (calls s'')) \<le>
            length (filter isChangeRefreshRate (calls s)) + 1"
proof -
  let ?s1 = "s\<lparr>mFeatures := (mFeatures s)\<lparr>contentRequirements := summary\<rparr>\<rparr>"
  obtain s' where first: "chooseRefreshRateForContent h cfg g summary s = Inr s'"
    and count: "length (filter isChangeRefreshRate (calls s')) \<le>
            length (filter isChangeRefreshRate (calls s)) + 1"
    and adopted: "modeId (mFeatures s') = Some newModeId"
    and inputs: "selectionInputs s' = selectionInputs ?s1"
  proof (cases "modeId (mFeatures s) = Some newModeId")
    case True
    from chooseRefreshRateForContent_same_mode [OF sw calc True, of h g]
    show ?thesis using that by auto
  next
    case False
    from cool have "(if aboveThermalFps s (getRefreshRateFromModeId cfg newModeId)
          then g (mThermalFps s) else Some newModeId) = Some newModeId" by simp
    from chooseRefreshRateForContent_new_mode [where g = g and h = h, OF sw calc False this]
    show ?thesis using that by auto
  qed
  let ?s1' = "s'\<lparr>mFeatures := (mFeatures s')\<lparr>contentRequirements := summary\<rparr>\<rparr>"
  have "selectionInputs ?s1' = selectionInputs ?s1"
    using inputs by (simp add: selectionInputs_def)
  then have calc': "calculateRefreshRateModeId cfg ?s1' = (newModeId, sig)"
    using calc calculateRefreshRateModeId_cong [of ?s1' ?s1 cfg] by simp
  from chooseRefreshRateForContent_same_mode [OF sw calc' adopted, of h g]
  obtain s'' where "chooseRefreshRateForContent h cfg g summary s' = Inr s''"
    and "filter isChangeRefreshRate (calls s'') = filter isChangeRefreshRate (calls s')"
    by blast
  with first count show ?thesis by auto
qed


lemmas selection_defs =
  chooseRefreshRateForContent_def handleTimerStateChanged_def calculateRefreshRateModeId_def
  updateFrameRateOverrides_def adoptModeId_def reportMode_def dispatchCachedReportedMode_def
  onNonPrimaryDisplayModeChanged_def aboveThermalFps_def int32_t_of_float_def call_def

lemmas example_defs =
  fixedPolicy_def headers_def hostModeFromFps_def freshScheduler_def modeOfId_def
  rate60_def rate90_def rate120_def rate90_5_def

text \<open>
  Claim C1, as amended. In a mode selection (\<^verbatim>\<open>chooseRefreshRateForContent\<close>, or
  \<^verbatim>\<open>handleTimerStateChanged\<close> when the timer state changes) whose newly chosen mode id
  equals the stored one, no \<^verbatim>\<open>changeRefreshRate\<close> is emitted. When
  \<^verbatim>\<open>consideredSignals.idle\<close> is true nothing is replayed; when it is false,
  \<^verbatim>\<open>dispatchCachedReportedMode\<close> runs, and it sends the cached parameters
  (\<^verbatim>\<open>onModeChanged\<close>, with the stored mode and its period) only if there are cached
  parameters, the display's current mode is the stored mode, the cached mode or period
  differs from the stored mode's, and the cached handle is registered.
  \<^verbatim>\<open>handleTimerStateChanged\<close> with the state the timer already has does nothing. Two
  \<^verbatim>\<open>chooseRefreshRateForContent\<close> runs in a row on the same inputs, with a chosen mode
  that the thermal test does not replace, both return and emit at most one
  \<^verbatim>\<open>changeRefreshRate\<close>, none of it in the second run.
\<close>

theorem equal_reselection_reports_nothing:
  "(canSwitch cfg \<and>
    calculateRefreshRateModeId cfg
      (s\<lparr>mFeatures := (mFeatures s)\<lparr>contentRequirements := summary\<rparr>\<rparr>) = (newModeId, sig) \<and>
    modeId (mFeatures s) = Some newModeId \<longrightarrow>
    (\<exists>s'. chooseRefreshRateForContent h cfg g summary s = Inr s' \<and>
       filter isChangeRefreshRate (calls s') = filter isChangeRefreshRate (calls s) \<and>
       filter isOnModeChanged (calls s') = filter isOnModeChanged (calls s) @
         (if idle sig then [] else cachedModeReplay cfg s newModeId))) \<and>
   (currentState (mFeatures s) \<noteq> newState \<and>
    calculateRefreshRateModeId cfg
      (s\<lparr>mFeatures := setCurrentState newState (mFeatures s)\<rparr>) = (newModeId, sig) \<and>
    modeId (setCurrentState newState (mFeatures s)) = Some newModeId \<longrightarrow>
    (\<exists>s'. handleTimerStateChanged h cfg g currentState setCurrentState newState s =
         Inr (touch sig, s') \<and>
       filter isChangeRefreshRate (calls s') = filter isChangeRefreshRate (calls s) \<and>
       filter isOnModeChanged (calls s') = filter isOnModeChanged (calls s) @
         (if idle sig then []
          else cachedModeReplay cfg (s\<lparr>mFeatures := setCurrentState newState (mFeatures s)\<rparr>)
                 newModeId))) \<and>
   (currentState (mFeatures s) = newState \<longrightarrow>
    handleTimerStateChanged h cfg g currentState setCurrentState newState s = Inr (False, s)) \<and>
   (canSwitch cfg \<and>
    calculateRefreshRateModeId cfg
      (s\<lparr>mFeatures := (mFeatures s)\<lparr>contentRequirements := summary\<rparr>\<rparr>) = (newModeId, sig) \<and>
    \<not> aboveThermalFps s (getRefreshRateFromModeId cfg newModeId) \<longrightarrow>
    (\<exists>s' s''. chooseRefreshRateForContent h cfg g summary s = Inr s' \<and>
       chooseRefreshRateForContent h cfg g summary s' = Inr s'' \<and>
       filter isChangeRefreshRate (calls s'') = filter isChangeRefreshRate (calls s') \<and>
       length (filter isChangeRefreshRate (calls s'')) \<le>
         length (filter isChangeRefreshRate (calls s)) + 1))"
proof (intro conjI impI)
  assume "canSwitch cfg \<and>
    calculateRefreshRateModeId cfg
      (s\<lparr>mFeatures := (mFeatures s)\<lparr>contentRequirements := summary\<rparr>\<rparr>) = (newModeId, sig) \<and>
    modeId (mFeatures s) = Some newModeId"
  then show "\<exists>s'. chooseRefreshRateForContent h cfg g summary s = Inr s' \<and>
       filter isChangeRefreshRate (calls s') = filter isChangeRefreshRate (calls s) \<and>
       filter isOnModeChanged (calls s') = filter isOnModeChanged (calls s) @
         (if idle sig then [] else cachedModeReplay cfg s newModeId)"
    using chooseRefreshRateForContent_same_mode [where g = g and h = h and cfg = cfg and s = s
        and summary = summary and newModeId = newModeId and sig = sig]
    by blast
next
  assume "currentState (mFeatures s) \<noteq> newState \<and>
    calculateRefreshRateModeId cfg
      (s\<lparr>mFeatures := setCurrentState newState (mFeatures s)\<rparr>) = (newModeId, sig) \<and>
    modeId (setCurrentState newState (mFeatures s)) = Some newModeId"
  then show "\<exists>s'. handleTimerStateChanged h cfg g currentState setCurrentState newState s =
         Inr (touch sig, s') \<and>
       filter isChangeRefreshRate (calls s') = filter isChangeRefreshRate (calls s) \<and>
       filter isOnModeChanged (calls s') = filter isOnModeChanged (calls s) @
         (if idle sig then []
          else cachedModeReplay cfg (s\<lparr>mFeatures := setCurrentState newState (mFeatures s)\<rparr>)
                 newModeId)"
    using handleTimerStateChanged_same_mode [where g = g and h = h and cfg = cfg and s = s
        and currentState = currentState and setCurrentState = setCurrentState
        and newState = newState and newModeId = newModeId and sig = sig]
    by blast
next
  assume "currentState (mFeatures s) = newState"
  then show "handleTimerStateChanged h cfg g currentState setCurrentState newState s = Inr (False, s)"
    by (simp add: handleTimerStateChanged_def)
next
  assume "canSwitch cfg \<and>
    calculateRefreshRateModeId cfg
      (s\<lparr>mFeatures := (mFeatures s)\<lparr>contentRequirements := summary\<rparr>\<rparr>) = (newModeId, sig) \<and>
    \<not> aboveThermalFps s (getRefreshRateFromModeId cfg newModeId)"
  then show "\<exists>s' s''. chooseRefreshRateForContent h cfg g summary s = Inr s' \<and>
       chooseRefreshRateForContent h cfg g summary s' = Inr s'' \<and>
       filter isChangeRefreshRate (calls s'') = filter isChangeRefreshRate (calls s') \<and>
       length (filter isChangeRefreshRate (calls s'')) \<le>
         length (filter isChangeRefreshRate (calls s)) + 1"
    using chooseRefreshRateForContent_twice [where g = g and h = h and cfg = cfg and s = s
        and summary = summary and newModeId = newModeId and sig = sig]
    by blast
qed

theorem equal_reselection_reports_nothing_witness:
  "map_sum id calls
     (chooseRefreshRateForContent headers (fixedPolicy True rate60) hostModeFromFps []
        settledScheduler) =
     Inr [OnModeChanged (ConnectionHandle 0) 0 0 16666667] \<and>
   map_sum id (\<lambda>r. (fst r, calls (snd r)))
     (handleTimerStateChanged headers (fixedPolicy True rate60) hostModeFromFps
        idleTimer (\<lambda>v f. f\<lparr>idleTimer := v\<rparr>) Expired (settledScheduler\<lparr>mIdleTimer := True\<rparr>)) =
     Inr (False, [])"
  using equal_reselection_reports_nothing
    [where cfg = "fixedPolicy True rate60" and s = settledScheduler and summary = "[]"
       and newModeId = 0 and sig = "\<lparr>touch = False, idle = False\<rparr>" and h = headers
       and g = hostModeFromFps and currentState = idleTimer and newState = Reset
       and setCurrentState = "\<lambda>v f. f\<lparr>idleTimer := v\<rparr>"]
    equal_reselection_reports_nothing
    [where cfg = "fixedPolicy True rate60" and s = "settledScheduler\<lparr>mIdleTimer := True\<rparr>"
       and summary = "[]" and newModeId = 0 and sig = "\<lparr>touch = False, idle = True\<rparr>"
       and h = headers and g = hostModeFromFps and currentState = idleTimer
       and newState = Expired and setCurrentState = "\<lambda>v f. f\<lparr>idleTimer := v\<rparr>"]
  by (simp add: selection_defs example_defs settledScheduler_def Let_def)

text \<open>The claim as it was stated fails twice. With the policy choosing the stored
  60 Hz mode, idle not considered and no cached parameters, the run replays nothing (it
  changes nothing at all). With a thermal limit of 90 and the policy choosing the
  120 Hz mode, two runs in a row on the same inputs each emit a \<^verbatim>\<open>changeRefreshRate\<close>:
  the first run stores the host's 90 Hz mode, which the second run compares with the
  policy's 120 Hz mode again.\<close>

theorem equal_reselection_counterexample:
  "snd (calculateRefreshRateModeId (fixedPolicy True rate60)
          (freshScheduler\<lparr>mFeatures := (mFeatures freshScheduler)\<lparr>modeId := Some 0\<rparr>\<rparr>)) =
     \<lparr>touch = False, idle = False\<rparr> \<and>
   chooseRefreshRateForContent headers (fixedPolicy True rate60) hostModeFromFps []
     (freshScheduler\<lparr>mFeatures := (mFeatures freshScheduler)\<lparr>modeId := Some 0\<rparr>\<rparr>) =
     Inr (freshScheduler\<lparr>mFeatures := (mFeatures freshScheduler)\<lparr>modeId := Some 0\<rparr>\<rparr>) \<and>
   (case chooseRefreshRateForContent headers (fixedPolicy True rate120) hostModeFromFps []
           (freshScheduler\<lparr>mThermalFps := 90\<rparr>) of
      Inl e \<Rightarrow> Inl e
    | Inr s' \<Rightarrow>
        map_sum id calls
          (chooseRefreshRateForContent headers (fixedPolicy True rate120) hostModeFromFps [] s')) =
     Inr [ChangeRefreshRate rate90 ModeEventChanged, ChangeRefreshRate rate90 ModeEventChanged]"
  by (simp add: selection_defs example_defs Let_def)


text \<open>
  Claim C2, as amended. In a mode selection whose chosen mode differs from the stored
  one, if \<^verbatim>\<open>thermalFps > 0\<close> and the chosen mode's rate truncated to an integer is
  greater than \<^verbatim>\<open>thermalFps\<close> truncated to an integer, then the mode the host's
  \<^verbatim>\<open>getModeFromFps(thermalFps)\<close> returns is the one stored and the one reported by the
  run's single \<^verbatim>\<open>changeRefreshRate\<close>, with the event \<^verbatim>\<open>None\<close> if idle was considered
  and \<^verbatim>\<open>Changed\<close> otherwise.
\<close>

theorem thermal_clamp:
  "(canSwitch cfg \<and>
    calculateRefreshRateModeId cfg
      (s\<lparr>mFeatures := (mFeatures s)\<lparr>contentRequirements := summary\<rparr>\<rparr>) = (newModeId, sig) \<and>
    modeId (mFeatures s) \<noteq> Some newModeId \<and>
    mThermalFps s > 0 \<and>
    int32_t_of_float (getFps (getRefreshRateFromModeId cfg newModeId)) >
      int32_t_of_float (mThermalFps s) \<and>
    g (mThermalFps s) = Some m \<longrightarrow>
    (\<exists>s'. chooseRefreshRateForContent h cfg g summary s = Inr s' \<and>
       modeId (mFeatures s') = Some m \<and>
       filter isChangeRefreshRate (calls s') = filter isChangeRefreshRate (calls s) @
         [ChangeRefreshRate (getRefreshRateFromModeId cfg m)
            (if idle sig then ModeEventNone else ModeEventChanged)])) \<and>
   (currentState (mFeatures s) \<noteq> newState \<and>
    calculateRefreshRateModeId cfg
      (s\<lparr>mFeatures := setCurrentState newState (mFeatures s)\<rparr>) = (newModeId, sig) \<and>
    modeId (setCurrentState newState (mFeatures s)) \<noteq> Some newModeId \<and>
    mThermalFps s > 0 \<and>
    int32_t_of_float (getFps (getRefreshRateFromModeId cfg newModeId)) >
      int32_t_of_float (mThermalFps s) \<and>
    g (mThermalFps s) = Some m \<longrightarrow>
    (\<exists>s'. handleTimerStateChanged h cfg g currentState setCurrentState newState s =
         Inr (touch sig, s') \<and>
       modeId (mFeatures s') = Some m \<and>
       filter isChangeRefreshRate (calls s') = filter isChangeRefreshRate (calls s) @
         [ChangeRefreshRate (getRefreshRateFromModeId cfg m)
            (if idle sig then ModeEventNone else ModeEventChanged)]))"
proof (intro conjI impI)
  assume a: "canSwitch cfg \<and>
    calculateRefreshRateModeId cfg
      (s\<lparr>mFeatures := (mFeatures s)\<lparr>contentRequirements := summary\<rparr>\<rparr>) = (newModeId, sig) \<and>
    modeId (mFeatures s) \<noteq> Some newModeId \<and>
    mThermalFps s > 0 \<and>
    int32_t_of_float (getFps (getRefreshRateFromModeId cfg newModeId)) >
      int32_t_of_float (mThermalFps s) \<and>
    g (mThermalFps s) = Some m"
  then have "(if aboveThermalFps s (getRefreshRateFromModeId cfg newModeId)
      then g (mThermalFps s) else Some newModeId) = Some m"
    by (simp add: aboveThermalFps_def)
  with a show "\<exists>s'. chooseRefreshRateForContent h cfg g summary s = Inr s' \<and>
       modeId (mFeatures s') = Some m \<and>
       filter isChangeRefreshRate (calls s') = filter isChangeRefreshRate (calls s) @
         [ChangeRefreshRate (getRefreshRateFromModeId cfg m)
            (if idle sig then ModeEventNone else ModeEventChanged)]"
    using chooseRefreshRateForContent_new_mode [where g = g and h = h and cfg = cfg and s = s
        and summary = summary and newModeId = newModeId and sig = sig and m = m]
    by blast
next
  assume a: "currentState (mFeatures s) \<noteq> newState \<and>
    calculateRefreshRateModeId cfg
      (s\<lparr>mFeatures := setCurrentState newState (mFeatures s)\<rparr>) = (newModeId, sig) \<and>
    modeId (setCurrentState newState (mFeatures s)) \<noteq> Some newModeId \<and>
    mThermalFps s > 0 \<and>
    int32_t_of_float (getFps (getRefreshRateFromModeId cfg newModeId)) >
      int32_t_of_float (mThermalFps s) \<and>
    g (mThermalFps s) = Some m"
  then have "(if aboveThermalFps s (getRefreshRateFromModeId cfg newModeId)
      then g (mThermalFps s) else Some newModeId) = Some m"
    by (simp add: aboveThermalFps_def)
  with a show "\<exists>s'. handleTimerStateChanged h cfg g currentState setCurrentState newState s =
         Inr (touch sig, s') \<and>
       modeId (mFeatures s') = Some m \<and>
       filter isChangeRefreshRate (calls s') = filter isChangeRefreshRate (calls s) @
         [ChangeRefreshRate (getRefreshRateFromModeId cfg m)
            (if idle sig then ModeEventNone else ModeEventChanged)]"
    using handleTimerStateChanged_new_mode [where g = g and h = h and cfg = cfg and s = s
        and currentState = currentState and setCurrentState = setCurrentState
        and newState = newState and newModeId = newModeId and sig = sig and m = m]
    by blast
qed

theorem thermal_clamp_witness:
  "map_sum id (\<lambda>s'. (modeId (mFeatures s'), calls s'))
     (chooseRefreshRateForContent headers (fixedPolicy True rate120) hostModeFromFps []
        (freshScheduler\<lparr>mThermalFps := 90\<rparr>)) =
     Inr (Some 1, [ChangeRefreshRate rate90 ModeEventChanged]) \<and>
   map_sum id (\<lambda>r. (fst r, modeId (mFeatures (snd r)), calls (snd r)))
     (handleTimerStateChanged headers (fixedPolicy True rate120) hostModeFromFps
        touchState (\<lambda>v f. f\<lparr>touchState := v\<rparr>) Active
        (freshScheduler\<lparr>mThermalFps := 90, mTouchTimer := True\<rparr>)) =
     Inr (True, Some 1, [ChangeRefreshRate rate90 ModeEventChanged])"
  using thermal_clamp
    [where cfg = "fixedPolicy True rate120" and s = "freshScheduler\<lparr>mThermalFps := 90\<rparr>"
       and summary = "[]" and newModeId = 2 and sig = "\<lparr>touch = False, idle = False\<rparr>"
       and h = headers and g = hostModeFromFps and m = 1 and currentState = idleTimer
       and newState = Reset and setCurrentState = "\<lambda>v f. f\<lparr>idleTimer := v\<rparr>"]
    thermal_clamp
    [where cfg = "fixedPolicy True rate120"
       and s = "freshScheduler\<lparr>mThermalFps := 90, mTouchTimer := True\<rparr>"
       and summary = "[]" and newModeId = 2 and sig = "\<lparr>touch = True, idle = False\<rparr>"
       and h = headers and g = hostModeFromFps and m = 1 and currentState = touchState
       and newState = Active and setCurrentState = "\<lambda>v f. f\<lparr>touchState := v\<rparr>"]
  by (simp add: selection_defs example_defs Let_def)

text \<open>The claim as it was stated fails for a rate above the limit by less than one:
  with a thermal limit of 90 and the policy choosing a 90.5 Hz mode, both truncate to 90,
  and the policy's mode is stored and reported, not the host's 90 Hz mode.\<close>

theorem thermal_clamp_counterexample:
  "getFps rate90_5 > 90 \<and>
   hostModeFromFps 90 = Some 1 \<and>
   map_sum id (\<lambda>s'. (modeId (mFeatures s'), calls s'))
     (chooseRefreshRateForContent headers (fixedPolicy True rate90_5) hostModeFromFps []
        (freshScheduler\<lparr>mThermalFps := 90\<rparr>)) =
     Inr (Some 3, [ChangeRefreshRate rate90_5 ModeEventChanged])"
  by (simp add: selection_defs example_defs Let_def)

end
